theory Spec2Isabelle
  imports Main "HOL-Library.Sublist"
begin

section \<open>JavaScript values used by the phone input\<close>

text \<open>
  A JavaScript string is a \<^typ>\<open>string\<close>; the buffers of the phone input hold only
  ASCII digits and \<open>+\<close>, so one \<^typ>\<open>char\<close> is one UTF-16 code unit.
  A value that is either a string or \<open>undefined\<close> is a \<^typ>\<open>string option\<close>.
  \<open>if (x)\<close> on such a value is false for \<open>undefined\<close> and for the empty string.
\<close>

definition truthy :: "string option \<Rightarrow> bool" where
  "truthy x = (case x of None \<Rightarrow> False | Some s \<Rightarrow> s \<noteq> [])"

text \<open>\<open>a || b\<close> on two such values.\<close>

definition js_or :: "string option \<Rightarrow> string option \<Rightarrow> string option" where
  "js_or a b = (if truthy a then a else b)"

text \<open>
  \<open>s.indexOf(p)\<close>: the least position at which \<open>p\<close> occurs in \<open>s\<close>, or \<open>-1\<close>.
  The empty pattern occurs at position 0.
\<close>

definition indexOf :: "string \<Rightarrow> string \<Rightarrow> int" where
  "indexOf s p =
     (case find (\<lambda>i. prefix p (drop i s)) [0..<Suc (length s)] of
        Some i \<Rightarrow> int i
      | None \<Rightarrow> - 1)"

text \<open>\<open>s[0] === '+'\<close>; \<open>s[0]\<close> of the empty string is \<open>undefined\<close>, which equals no character.\<close>

definition firstIsPlus :: "string \<Rightarrow> bool" where
  "firstIsPlus s = (case s of [] \<Rightarrow> False | c # _ \<Rightarrow> c = CHR ''+'')"

text \<open>
  ``Phone digits'' are what the input component hands to the change handler and what the hook
  stores: digits, and in front of them at most one \<open>+\<close> sign.
\<close>

definition isDigitBuffer :: "string \<Rightarrow> bool" where
  "isDigitBuffer s =
     (case s of
        [] \<Rightarrow> True
      | c # t \<Rightarrow> (c = CHR ''+'' \<or> c \<in> set ''0123456789'') \<and>
                 list_all (\<lambda>d. d \<in> set ''0123456789'') t)"

text \<open>\<open>s.slice(n)\<close> for \<open>0 \<le> n\<close> is \<^term>\<open>drop n s\<close>.\<close>

datatype js_error =
    TypeError
  | UnknownCountry string

section \<open>The numbering-plan library\<close>

text \<open>
  The functions of \<open>libphonenumber-js/core\<close> that the phone input calls, each already
  applied to the metadata. The library is not part of the repository: it is a parameter of
  every function below.
  \<^item> \<open>getCountryCallingCode c\<close> is \<open>None\<close> where the library throws
    \<open>Unknown country\<close>;
  \<^item> \<open>asYouType c text\<close> is \<open>new AsYouType(c, metadata).input(text).getNumber()\<close>,
    \<open>None\<close> for \<open>undefined\<close>;
  \<^item> \<open>asYouTypeCountry text\<close> is \<open>new AsYouType(null, metadata).input(text).getCountry()\<close>;
  \<^item> \<open>asYouTypeNationalNumber c text\<close> is
    \<open>new AsYouType(c, metadata).input(text).getNationalNumber()\<close>;
  \<^item> \<open>country_calling_codes\<close> are the keys of \<open>metadata.country_calling_codes\<close>;
  \<^item> \<open>maxNumberLength c\<close> is the greatest possible length of a national number of \<open>c\<close>.
\<close>

record phone_number =
  number :: string
  pn_country :: "string option"
  countryCallingCode :: string
  nationalNumber :: string
  formatNational :: string

record lib =
  getCountryCallingCode :: "string \<Rightarrow> string option"
  asYouType :: "string option \<Rightarrow> string \<Rightarrow> phone_number option"
  parseDigits :: "string \<Rightarrow> string"
  asYouTypeCountry :: "string \<Rightarrow> string option"
  asYouTypeNationalNumber :: "string \<Rightarrow> string \<Rightarrow> string"
  country_calling_codes :: "string list"
  maxNumberLength :: "string \<Rightarrow> nat"

section \<open>usePhoneDigits.js and the input component\<close>

text \<open>
  The properties of the hook (and of \<open>PhoneInput\<close>, whose code is the same) and the state
  it keeps: the two \<open>useState\<close> cells that the change handler writes, the re-render
  trigger (counted), and the \<open>countryMismatchDetected\<close> ref.
\<close>

record props =
  "value" :: "string option"
  country :: "string option"
  defaultCountry :: "string option"
  international :: bool
  withCountryCallingCode :: bool
  useNationalFormatForDefaultCountryValue :: bool

record hook_state =
  phoneDigits :: "string option"
  valueForParsedInput :: "string option"
  rerenderTrigger :: nat
  countryMismatchDetected :: bool

text \<open>A call of \<open>onCountryMismatch(value, country, actualCountry)\<close>.\<close>

type_synonym mismatch = "string \<times> string \<times> string option"

text \<open>
  \<open>getParsedInputForValue\<close>. The result is the returned buffer and the calls of
  \<open>onCountryMismatch\<close> it made, in order. \<open>country\<close> is passed on to the callback as it
  is, so it is a string where the callback is reached.
\<close>

definition getParsedInputForValue ::
  "lib \<Rightarrow> props \<Rightarrow> js_error + (string \<times> mismatch list)" where
  "getParsedInputForValue L p =
     (if truthy (country p) \<and> international p \<and> withCountryCallingCode p then
        (case getCountryCallingCode L (the (country p)) of
           None \<Rightarrow> Inl (UnknownCountry (the (country p)))
         | Some cc \<Rightarrow>
             let prefix = CHR ''+'' # cc in
             if truthy (value p) then
               Inr (the (value p),
                    if indexOf (the (value p)) prefix \<noteq> 0
                    then [(the (value p), the (country p), None)] else [])
             else Inr (prefix, []))
      else if \<not> truthy (value p) then Inr ('''', [])
      else if \<not> truthy (country p) \<and> \<not> truthy (defaultCountry p) then Inr (the (value p), [])
      else
        (case asYouType L None (the (value p)) of
           None \<Rightarrow> Inr ('''', [])
         | Some phoneNumber \<Rightarrow>
             if truthy (country p) then
               (if truthy (pn_country phoneNumber) \<and> pn_country phoneNumber \<noteq> country p then
                  Inr (if international p then nationalNumber phoneNumber
                       else parseDigits L (formatNational phoneNumber),
                       [(the (value p), the (country p), pn_country phoneNumber)])
                else
                  (case getCountryCallingCode L (the (country p)) of
                     None \<Rightarrow> Inl (UnknownCountry (the (country p)))
                   | Some cc \<Rightarrow>
                       Inr (if international p then nationalNumber phoneNumber
                            else parseDigits L (formatNational phoneNumber),
                            if countryCallingCode phoneNumber \<noteq> cc
                            then [(the (value p), the (country p), None)] else [])))
             else
               (if truthy (pn_country phoneNumber) \<and> pn_country phoneNumber = defaultCountry p
                   \<and> useNationalFormatForDefaultCountryValue p
                then Inr (parseDigits L (formatNational phoneNumber), [])
                else Inr (the (value p), []))))"

text \<open>
  \<open>onSetPhoneDigits\<close> (\<open>onParsedInputChange\<close> in the component). The argument is what the
  input component passes: a string, or \<open>undefined\<close>. The early \<open>return rerender()\<close>
  changes the re-render trigger only.
\<close>

definition onSetPhoneDigits ::
  "lib \<Rightarrow> props \<Rightarrow> hook_state \<Rightarrow> string option \<Rightarrow> js_error + hook_state" where
  "onSetPhoneDigits L p st phoneDigits0 =
     (let finish = (\<lambda>phoneDigits1.
        if truthy phoneDigits1 then
          (if truthy (country p) \<and> international p \<and> \<not> withCountryCallingCode p then
             (case getCountryCallingCode L (the (country p)) of
                None \<Rightarrow> Inl (UnknownCountry (the (country p)))
              | Some cc \<Rightarrow>
                  Inr (st\<lparr>phoneDigits := phoneDigits1,
                          valueForParsedInput :=
                            map_option number
                              (asYouType L (js_or (country p) (defaultCountry p))
                                 (CHR ''+'' # cc @ the phoneDigits1))\<rparr>))
           else
             Inr (st\<lparr>phoneDigits := phoneDigits1,
                     valueForParsedInput :=
                       map_option number
                         (asYouType L (js_or (country p) (defaultCountry p))
                            (the phoneDigits1))\<rparr>))
        else Inr (st\<lparr>phoneDigits := phoneDigits1, valueForParsedInput := None\<rparr>))
      in
      if truthy (country p) then
        (if international p \<and> withCountryCallingCode p then
           (case getCountryCallingCode L (the (country p)) of
              None \<Rightarrow> Inl (UnknownCountry (the (country p)))
            | Some cc \<Rightarrow>
                (case phoneDigits0 of
                   None \<Rightarrow> Inl TypeError
                 | Some s \<Rightarrow>
                     if indexOf s (CHR ''+'' # cc) \<noteq> 0 then
                       (if countryMismatchDetected st then finish phoneDigits0
                        else Inr (st\<lparr>rerenderTrigger := Suc (rerenderTrigger st)\<rparr>))
                     else finish phoneDigits0))
         else
           (if truthy phoneDigits0 \<and> firstIsPlus (the phoneDigits0)
            then finish (Some (drop 1 (the phoneDigits0)))
            else finish phoneDigits0))
      else if \<not> truthy (defaultCountry p) then
        (if truthy phoneDigits0 \<and> \<not> firstIsPlus (the phoneDigits0)
         then finish (Some (CHR ''+'' # the phoneDigits0))
         else finish phoneDigits0)
      else finish phoneDigits0)"

text \<open>
  The hook's \<open>onCountryMismatch\<close> sets the ref; \<open>getInitialParsedInput\<close> runs
  \<open>getParsedInputForValue\<close> with it, and its result initialises \<open>phoneDigits\<close>.
\<close>

definition initialState :: "lib \<Rightarrow> props \<Rightarrow> js_error + hook_state" where
  "initialState L p =
     (case getParsedInputForValue L p of
        Inl e \<Rightarrow> Inl e
      | Inr (buffer, reports) \<Rightarrow>
          Inr \<lparr>phoneDigits = Some buffer, valueForParsedInput = value p,
               rerenderTrigger = 0, countryMismatchDetected = (reports \<noteq> [])\<rparr>)"

section \<open>phoneInputHelpers.js\<close>

text \<open>
  The file is not among the sources; its tests are. Each function below follows the
  specification, and the assertions of \<open>phoneInputHelpers.test.js\<close> where they decide.
  Lookups for a country the library does not know give nothing and never fail
  (\<section>4.1).
\<close>

text \<open>
  Modelled from the spec: \<open>getCountryFromPossiblyIncompleteInternationalPhoneNumber\<close>, the
  country inference engine of \<section>4.3. It gives the country of a partial international
  buffer, or \<open>undefined\<close> while several countries share the calling code or too few digits
  are there. The leading-digit tables it consults are the library's (\<section>9), so the
  inference is the library's own, \<open>asYouTypeCountry\<close>.
\<close>

definition getCountryFromPossiblyIncompleteInternationalPhoneNumber ::
  "lib \<Rightarrow> string \<Rightarrow> string option" where
  "getCountryFromPossiblyIncompleteInternationalPhoneNumber L num = asYouTypeCountry L num"

text \<open>
  Modelled from the spec: \<open>couldNumberBelongToCountry\<close> (\<section>4.2): true iff every digit
  typed so far after \<open>+\<close> is a prefix of, or equal to, the calling code of the country, or
  the buffer is longer and agrees with the calling code up to its length. A country the
  library does not know has no calling code, and no number belongs to it.
\<close>

definition couldNumberBelongToCountry :: "lib \<Rightarrow> string \<Rightarrow> string \<Rightarrow> bool" where
  "couldNumberBelongToCountry L num ctry =
     (case getCountryCallingCode L ctry of
        None \<Rightarrow> False
      | Some cc \<Rightarrow> prefix (drop 1 num) cc \<or> prefix cc (drop 1 num))"

text \<open>
  Modelled from the spec: the search of \<open>stripCountryCallingCode\<close> through every known
  calling code, longest first where several of them match (\<section>4.2).
\<close>

fun longestCallingCode :: "string list \<Rightarrow> string \<Rightarrow> string option" where
  "longestCallingCode [] digits = None"
| "longestCallingCode (cc # ccs) digits =
     (case longestCallingCode ccs digits of
        None \<Rightarrow> if prefix cc digits then Some cc else None
      | Some best \<Rightarrow>
          if prefix cc digits \<and> length best < length cc then Some cc else Some best)"

text \<open>
  Modelled from the spec: \<open>stripCountryCallingCode\<close> (\<section>4.2). Given a buffer that
  starts with \<open>+\<close>, it removes the calling code of the country if the digits of the buffer
  start with it; if the country is absent or does not match, it tries every known calling
  code and strips the one that matches; if none matches, the national part is empty.
\<close>

definition stripCountryCallingCode :: "lib \<Rightarrow> string \<Rightarrow> string option \<Rightarrow> string" where
  "stripCountryCallingCode L num ctry =
     (let digits = drop 1 num;
          own = (case ctry of None \<Rightarrow> None | Some c \<Rightarrow> getCountryCallingCode L c)
      in
      if (case own of None \<Rightarrow> False | Some cc \<Rightarrow> prefix cc digits)
      then drop (length (the own)) digits
      else
        (case longestCallingCode (country_calling_codes L) digits of
           Some cc \<Rightarrow> drop (length cc) digits
         | None \<Rightarrow> ''''))"

text \<open>
  Modelled from the spec: \<open>getNationalSignificantNumberDigits\<close> (\<section>4.2). For an
  international buffer it is \<open>stripCountryCallingCode\<close>; for a national buffer with a
  country, the library strips the national prefix of that country. The result is
  \<open>undefined\<close>, not the empty string, when no digit is left.
\<close>

definition getNationalSignificantNumberDigits ::
  "lib \<Rightarrow> string \<Rightarrow> string option \<Rightarrow> string option" where
  "getNationalSignificantNumberDigits L num ctry =
     (let digits =
        (if firstIsPlus num then stripCountryCallingCode L num ctry
         else (case ctry of None \<Rightarrow> '''' | Some c \<Rightarrow> asYouTypeNationalNumber L c num))
      in if digits = [] then None else Some digits)"

text \<open>
  Modelled from the spec: \<open>trimNumber\<close> (\<section>4.2): it cuts a national or international
  buffer at the end so that its national significant number has at most
  \<open>maxNumberLength\<close> digits; it changes nothing if the country is unknown or the buffer
  is short enough.
\<close>

definition trimNumber :: "lib \<Rightarrow> string \<Rightarrow> string \<Rightarrow> string" where
  "trimNumber L num ctry =
     (case getCountryCallingCode L ctry of
        None \<Rightarrow> num
      | Some _ \<Rightarrow>
          (case getNationalSignificantNumberDigits L num (Some ctry) of
             None \<Rightarrow> num
           | Some nsn \<Rightarrow>
               if maxNumberLength L ctry < length nsn
               then take (length num - (length nsn - maxNumberLength L ctry)) num
               else num))"

text \<open>
  Modelled from the spec: \<open>e164\<close>, the canonical value of a buffer (\<section>3, \<section>4.6).
  An international buffer longer than \<open>+\<close> is its own value; a national buffer needs a
  country and at least one national significant digit, and its value is \<open>+\<close>, the calling
  code and those digits. The assertions of the tests for \<open>e164\<close> fix the cases.
\<close>

definition e164 :: "lib \<Rightarrow> string option \<Rightarrow> string option \<Rightarrow> string option" where
  "e164 L num ctry =
     (if \<not> truthy num then None
      else if firstIsPlus (the num) then
        (if the num = ''+'' then None else num)
      else if \<not> truthy ctry then None
      else
        (case getNationalSignificantNumberDigits L (the num) ctry of
           None \<Rightarrow> None
         | Some nsn \<Rightarrow>
             (case getCountryCallingCode L (the ctry) of
                None \<Rightarrow> None
              | Some cc \<Rightarrow> Some (CHR ''+'' # cc @ nsn))))"

text \<open>
  Modelled from the spec: \<open>getCountryForPartialE164Number\<close> (\<section>4.4). The inferred
  country is returned when it is among the allowed ones (or nothing restricts them).
  Otherwise, with the international option allowed (\<open>required\<close> not set), a selected
  country that can no longer belong to the number is dropped. In every other case the
  selected country stays: the tests (lines 248 to 252 and 1035 to 1052) expect \<open>FR\<close>
  for \<open>+7\<close> and \<open>+12\<close> with \<open>FR\<close> selected and the international option
  unavailable.
\<close>

definition getCountryForPartialE164Number ::
  "lib \<Rightarrow> string \<Rightarrow> string option \<Rightarrow> string list option \<Rightarrow> bool \<Rightarrow> string option" where
  "getCountryForPartialE164Number L partialE164Number ctry countries required =
     (let derived = getCountryFromPossiblyIncompleteInternationalPhoneNumber L partialE164Number
      in
      if truthy derived \<and> (case countries of None \<Rightarrow> True | Some cs \<Rightarrow> the derived \<in> set cs)
      then derived
      else if truthy ctry \<and> \<not> required
              \<and> \<not> couldNumberBelongToCountry L partialE164Number (the ctry)
      then None
      else ctry)"

text \<open>
  Modelled from the spec: \<open>migrateParsedInputForNewCountry\<close> (the table of \<section>4.5).
  An empty buffer stays empty, except from no country to a country in international format,
  where it becomes the prefix of the new country. For a new country, an international buffer
  is compared with \<open>+\<close> and the calling code of the new country: in national format the
  national part is kept, or the buffer is cleared when the prefix differs; in international
  format the buffer is kept, or reset to the prefix when it differs. A national buffer is
  kept when a country follows a country. Without a new country a national buffer becomes
  its international value, or the empty string when it has none.
\<close>

definition migrateParsedInputForNewCountry ::
  "lib \<Rightarrow> string option \<Rightarrow> string option \<Rightarrow> string option \<Rightarrow> bool \<Rightarrow> string" where
  "migrateParsedInputForNewCountry L digits prevCountry newCountry useNationalFormat =
     (if \<not> truthy digits then
        (if truthy newCountry \<and> \<not> truthy prevCountry \<and> \<not> useNationalFormat then
           (case getCountryCallingCode L (the newCountry) of
              None \<Rightarrow> ''''
            | Some cc \<Rightarrow> CHR ''+'' # cc)
         else '''')
      else if truthy newCountry then
        (if firstIsPlus (the digits) then
           (case getCountryCallingCode L (the newCountry) of
              None \<Rightarrow> the digits
            | Some cc \<Rightarrow>
                if useNationalFormat then
                  (if prefix (CHR ''+'' # cc) (the digits)
                   then stripCountryCallingCode L (the digits) newCountry
                   else '''')
                else
                  (if prefix (CHR ''+'' # cc) (the digits)
                   then the digits
                   else CHR ''+'' # cc))
         else the digits)
      else
        (if firstIsPlus (the digits) then the digits
         else (case e164 L digits prevCountry of None \<Rightarrow> '''' | Some v \<Rightarrow> v)))"

text \<open>
  Modelled from the spec: the national display of an international buffer when only the
  national format is allowed (\<section>4.6, steps 4 and 5). A buffer that starts with the prefix
  of the country is replaced by the digits of the national format the library gives for it,
  taken as \<open>getParsedInputForValue\<close> takes them (nothing, if the library has no number
  yet); any other buffer only loses its \<open>+\<close>, as the tests expect for
  \<open>+78005553535\<close> under \<open>US\<close> (lines 514 to 520 and 1354 to 1360).
\<close>

definition convertInternationalInputToNational :: "lib \<Rightarrow> string \<Rightarrow> string \<Rightarrow> string" where
  "convertInternationalInputToNational L inp ctry =
     (if (case getCountryCallingCode L ctry of
            None \<Rightarrow> False | Some cc \<Rightarrow> prefix (CHR ''+'' # cc) inp)
      then (case asYouType L (Some ctry) inp of
              None \<Rightarrow> ''''
            | Some n \<Rightarrow> parseDigits L (formatNational n))
      else drop 1 inp)"

text \<open>
  Modelled from the spec: the buffer of \<open>parseInput\<close> before the country is decided
  (\<section>4.6, steps 3, 5 and 6). With \<open>international\<close> \<open>false\<close> and a country, an
  international input is turned national; with \<open>limitMaxLength\<close> and a country the buffer
  is trimmed (no country, no trimming: the tests, at lines 441 and 1272, leave
  \<open>+121337342530\<close> as it is); a
  \<open>+\<close> is prepended to a national buffer when the international format is forced, or when
  there is neither a country nor a default country.
\<close>

definition parseInput_buffer ::
  "lib \<Rightarrow> string option \<Rightarrow> string option \<Rightarrow> string option \<Rightarrow> bool option \<Rightarrow> bool \<Rightarrow>
   string option" where
  "parseInput_buffer L inp ctry dflt intl limitMaxLength =
     (let input1 =
            (if intl = Some False \<and> truthy ctry \<and> truthy inp \<and> firstIsPlus (the inp)
             then Some (convertInternationalInputToNational L (the inp) (the ctry))
             else inp);
          input2 =
            (if truthy input1 \<and> truthy ctry \<and> limitMaxLength
             then Some (trimNumber L (the input1) (the ctry))
             else input1)
      in
      if truthy input2 \<and> \<not> firstIsPlus (the input2)
         \<and> (intl = Some True \<or> (\<not> truthy ctry \<and> \<not> truthy dflt))
      then Some (CHR ''+'' # the input2)
      else input2)"

text \<open>
  Modelled from the spec: \<open>parseInput\<close> (\<section>4.6), with the arguments of the positional
  form the tests call; the result is \<open>(input, country, value)\<close>. Erasing a buffer that
  started with \<open>+\<close> resets the country to the default country (to none when the
  international format is forced, lines 457 to 464); erasing such a buffer up to the
  \<open>+\<close> resets it to none (lines 412 to 420).
  The value is \<open>e164\<close> of the buffer. When there is a value, the country follows
  \<open>getCountryForPartialE164Number\<close>, and with \<open>international\<close> \<open>false\<close> an
  international buffer is turned national under that country and the value computed again.
  Parameter names are shortened where a field of the records above has the name.
\<close>

definition parseInput ::
  "lib \<Rightarrow> string option \<Rightarrow> string option \<Rightarrow> string option \<Rightarrow> string option \<Rightarrow>
   string list option \<Rightarrow> bool \<Rightarrow> bool option \<Rightarrow> bool \<Rightarrow>
   string option \<times> string option \<times> string option" where
  "parseInput L inp prevInput ctry dflt countries includeInternationalOption
     intl limitMaxLength =
     (let input3 = parseInput_buffer L inp ctry dflt intl limitMaxLength;
          country1 =
            (if \<not> truthy input3 \<and> truthy prevInput \<and> firstIsPlus (the prevInput)
             then (if intl = Some True then None else dflt)
             else ctry);
          country2 =
            (if input3 = Some ''+'' \<and> truthy prevInput \<and> firstIsPlus (the prevInput)
                \<and> 1 < length (the prevInput)
             then None
             else country1);
          val1 = e164 L input3 country2
      in
      if truthy val1 then
        (let country3 = getCountryForPartialE164Number L (the val1) country2 countries
                          (\<not> includeInternationalOption)
         in
         if intl = Some False \<and> truthy country3 \<and> firstIsPlus (the input3) then
           (let input4 = Some (convertInternationalInputToNational L (the input3) (the country3))
            in (input4, country3, e164 L input4 country3))
         else (input3, country3, val1))
      else (input3, country2, None))"

text \<open>
  The number of national significant digits of a buffer under a country; a buffer without
  such digits has none.
\<close>

definition nsnCount :: "lib \<Rightarrow> string option \<Rightarrow> string \<Rightarrow> nat" where
  "nsnCount L buffer c =
     (case buffer of
        None \<Rightarrow> 0
      | Some x \<Rightarrow>
          (case getNationalSignificantNumberDigits L x (Some c) of
             None \<Rightarrow> 0
           | Some nsn \<Rightarrow> length nsn))"

section \<open>A small numbering plan\<close>

text \<open>
  A stand-in for the library on seven countries, for evaluating the functions at concrete
  inputs: calling codes, national prefixes and greatest national number lengths are those of
  the real numbering plan; the formatter extracts the calling code (or strips the national
  prefix of the given country) and reports a number once one national digit is there.
  It stands for the library on complete numbers; on one or two national digits the
  formatter of the library decides about the national prefix in its own way.
\<close>

definition sample_callingCodeOf :: "string \<Rightarrow> string option" where
  "sample_callingCodeOf =
     map_of [(''RU'', ''7''), (''KZ'', ''7''), (''US'', ''1''), (''CA'', ''1''),
             (''FR'', ''33''), (''AM'', ''374''), (''KG'', ''996'')]"

definition sample_nationalPrefix :: "string \<Rightarrow> string" where
  "sample_nationalPrefix c =
     (if c = ''RU'' \<or> c = ''KZ'' then ''8'' else if c = ''US'' \<or> c = ''CA'' then ''1'' else ''0'')"

definition sample_codes :: "string list" where
  "sample_codes = [''1'', ''7'', ''33'', ''374'', ''996'']"

definition sample_countryOf :: "string \<Rightarrow> string \<Rightarrow> string option" where
  "sample_countryOf cc nsn =
     (if cc = ''33'' then Some ''FR''
      else if cc = ''374'' then Some ''AM''
      else if cc = ''996'' then Some ''KG''
      else if cc = ''7'' then
        (case nsn of [] \<Rightarrow> None
         | d # _ \<Rightarrow> if d = CHR ''6'' \<or> d = CHR ''7'' then Some ''KZ'' else Some ''RU'')
      else None)"

definition sample_asYouType :: "string option \<Rightarrow> string \<Rightarrow> phone_number option" where
  "sample_asYouType c text =
     (if firstIsPlus text then
        (case find (\<lambda>cc. prefix cc (drop 1 text)) sample_codes of
           None \<Rightarrow> None
         | Some cc \<Rightarrow>
             let nsn = drop (Suc (length cc)) text in
             if nsn = [] then None
             else Some \<lparr>number = CHR ''+'' # cc @ nsn, pn_country = sample_countryOf cc nsn,
                        countryCallingCode = cc, nationalNumber = nsn,
                        formatNational =
                          (case sample_countryOf cc nsn of
                             None \<Rightarrow> nsn | Some k \<Rightarrow> sample_nationalPrefix k @ '' '' @ nsn)\<rparr>)
      else
        (case c of
           None \<Rightarrow> None
         | Some k \<Rightarrow>
             (case sample_callingCodeOf k of
                None \<Rightarrow> None
              | Some cc \<Rightarrow>
                  let nsn = (if prefix (sample_nationalPrefix k) text
                             then drop (length (sample_nationalPrefix k)) text else text) in
                  if nsn = [] then None
                  else Some \<lparr>number = CHR ''+'' # cc @ nsn, pn_country = sample_countryOf cc nsn,
                             countryCallingCode = cc, nationalNumber = nsn,
                             formatNational = sample_nationalPrefix k @ '' '' @ nsn\<rparr>)))"

definition sample_lib :: lib where
  "sample_lib =
     \<lparr>getCountryCallingCode = sample_callingCodeOf,
      asYouType = sample_asYouType,
      parseDigits = filter (\<lambda>c. c \<in> set ''0123456789''),
      asYouTypeCountry = (\<lambda>text. case sample_asYouType None text of
                             None \<Rightarrow> None | Some n \<Rightarrow> pn_country n),
      asYouTypeNationalNumber = (\<lambda>c text. case sample_asYouType (Some c) text of
                             None \<Rightarrow> [] | Some n \<Rightarrow> nationalNumber n),
      country_calling_codes = sample_codes,
      maxNumberLength = (\<lambda>c. if c = ''FR'' \<or> c = ''KG'' then 9 else if c = ''AM'' then 8 else 10)\<rparr>"

text \<open>
  The formatter of the library reads a national buffer that is too long for the country and
  starts with its calling code as the international number it would be with a \<open>+\<close> in
  front. The small numbering plan with that reading of national buffers:
\<close>

definition sample_nationalNumber_missing_plus :: "string \<Rightarrow> string \<Rightarrow> string" where
  "sample_nationalNumber_missing_plus c text =
     (let asNational = asYouTypeNationalNumber sample_lib c text in
      case sample_callingCodeOf c of
        None \<Rightarrow> asNational
      | Some cc \<Rightarrow>
          if maxNumberLength sample_lib c < length asNational \<and> prefix cc text
          then asYouTypeNationalNumber sample_lib c (drop (length cc) text)
          else asNational)"

definition sample_lib_missing_plus :: lib where
  "sample_lib_missing_plus =
     sample_lib\<lparr>asYouTypeNationalNumber := sample_nationalNumber_missing_plus\<rparr>"

text \<open>Properties and states used at concrete inputs.\<close>

definition us_national :: props where
  "us_national = \<lparr>value = None, country = Some ''US'', defaultCountry = None,
     international = False, withCountryCallingCode = False,
     useNationalFormatForDefaultCountryValue = True\<rparr>"

definition us_with_calling_code :: props where
  "us_with_calling_code = \<lparr>value = Some ''+78005553535'', country = Some ''US'', defaultCountry = None,
     international = True, withCountryCallingCode = True,
     useNationalFormatForDefaultCountryValue = True\<rparr>"

definition no_country :: props where
  "no_country = \<lparr>value = None, country = None, defaultCountry = None,
     international = False, withCountryCallingCode = False,
     useNationalFormatForDefaultCountryValue = True\<rparr>"

definition state0 :: "bool \<Rightarrow> hook_state" where
  "state0 m = \<lparr>phoneDigits = Some ''+1'', valueForParsedInput = None, rerenderTrigger = 0,
     countryMismatchDetected = m\<rparr>"

section \<open>Facts about the JavaScript helpers\<close>

lemma find_Some_mem: "find P xs = Some x \<Longrightarrow> x \<in> set xs"
  by (induction xs) (auto split: if_splits)

lemma indexOf_zero_iff: "indexOf s p = 0 \<longleftrightarrow> prefix p s"
proof (cases "prefix p s")
  case True
  then show ?thesis
    by (simp add: indexOf_def upt_conv_Cons del: upt_Suc)
next
  case False
  have "find (\<lambda>i. prefix p (drop i s)) [Suc 0..<Suc (length s)] \<noteq> Some 0"
    using find_Some_mem [of "\<lambda>i. prefix p (drop i s)" "[Suc 0..<Suc (length s)]" 0]
    by auto
  with False show ?thesis
    by (auto simp: indexOf_def upt_conv_Cons split: option.splits simp del: upt_Suc)
qed

lemma truthy_Some [simp]: "truthy (Some s) \<longleftrightarrow> s \<noteq> []"
  by (simp add: truthy_def)

lemma truthy_None [simp]: "\<not> truthy None"
  by (simp add: truthy_def)

lemma firstIsPlus_simps [simp]:
  "firstIsPlus [] = False" "firstIsPlus (c # s) = (c = CHR ''+'')"
  by (simp_all add: firstIsPlus_def)

lemma sample_asYouType_78: "asYouType sample_lib (Some ''US'') ''+78'' =
   Some \<lparr>number = ''+78'', pn_country = Some ''RU'', countryCallingCode = ''7'',
         nationalNumber = ''8'', formatNational = ''8 8''\<rparr>"
  by code_simp

lemma sample_asYouType_78005553535: "asYouType sample_lib None ''+78005553535'' =
   Some \<lparr>number = ''+78005553535'', pn_country = Some ''RU'', countryCallingCode = ''7'',
         nationalNumber = ''8005553535'', formatNational = ''8 8005553535''\<rparr>"
  by code_simp

lemma sample_callingCode_US: "getCountryCallingCode sample_lib ''US'' = Some ''1''"
  by code_simp

lemma sample_parseDigits_RU: "parseDigits sample_lib ''8 8005553535'' = ''88005553535''"
  by code_simp

section \<open>Facts about the helpers of the phone input\<close>

lemma longestCallingCode_None:
  "longestCallingCode ccs digits = None \<longleftrightarrow> (\<forall>k \<in> set ccs. \<not> prefix k digits)"
  by (induction ccs) (auto split: option.splits)

lemma longestCallingCode_Some:
  "longestCallingCode ccs digits = Some k \<Longrightarrow> k \<in> set ccs \<and> prefix k digits"
  by (induction ccs arbitrary: k) (auto split: option.splits if_splits)

lemma longestCallingCode_max:
  "longestCallingCode ccs digits = Some best \<Longrightarrow> k \<in> set ccs \<Longrightarrow> prefix k digits
     \<Longrightarrow> length k \<le> length best"
  by (induction ccs arbitrary: best)
     (auto split: option.splits if_splits simp: longestCallingCode_None)

lemma strip_international:
  assumes "getCountryCallingCode L c = Some cc"
  shows "stripCountryCallingCode L (CHR ''+'' # d) (Some c) =
           (if prefix cc d then drop (length cc) d
            else (case longestCallingCode (country_calling_codes L) d of
                    Some k \<Rightarrow> drop (length k) d
                  | None \<Rightarrow> ''''))"
  using assms by (simp add: stripCountryCallingCode_def Let_def)

lemma strip_length_le:
  assumes "getCountryCallingCode L c = Some cc"
  shows "length (stripCountryCallingCode L (CHR ''+'' # d) (Some c)) \<le> length d"
  by (simp add: strip_international [OF assms] split: option.splits)

lemma strip_take:
  assumes cc: "getCountryCallingCode L c = Some cc"
    and over: "m < length (stripCountryCallingCode L (CHR ''+'' # d) (Some c))"
  shows "length (stripCountryCallingCode L
           (CHR ''+'' # take (length d - (length (stripCountryCallingCode L (CHR ''+'' # d) (Some c)) - m)) d)
           (Some c)) \<le> m"
proof (cases "prefix cc d")
  case True
  then have s: "stripCountryCallingCode L (CHR ''+'' # d) (Some c) = drop (length cc) d"
    by (simp add: strip_international [OF cc])
  from True have le: "length cc \<le> length d"
    by (rule prefix_length_le)
  from over s le have n: "length d - (length (stripCountryCallingCode L (CHR ''+'' # d) (Some c)) - m)
      = length cc + m"
    by simp
  from True have "prefix cc (take (length cc + m) d)"
    by (auto simp: prefix_def)
  then show ?thesis
    unfolding n by (simp add: strip_international [OF cc])
next
  case False
  show ?thesis
  proof (cases "longestCallingCode (country_calling_codes L) d")
    case None
    with False over show ?thesis
      by (simp add: strip_international [OF cc])
  next
    case (Some k)
    with False have s: "stripCountryCallingCode L (CHR ''+'' # d) (Some c) = drop (length k) d"
      by (simp add: strip_international [OF cc])
    from Some have k: "k \<in> set (country_calling_codes L)" "prefix k d"
      by (auto dest: longestCallingCode_Some)
    then have le: "length k \<le> length d"
      by (auto dest: prefix_length_le)
    from over s le have n: "length d - (length (stripCountryCallingCode L (CHR ''+'' # d) (Some c)) - m)
        = length k + m"
      by simp
    let ?t = "take (length k + m) d"
    from k(2) have pk: "prefix k ?t"
      by (auto simp: prefix_def)
    have npc: "\<not> prefix cc ?t"
      using False take_is_prefix [of "length k + m" d] prefix_order.trans by blast
    obtain k' where k': "longestCallingCode (country_calling_codes L) ?t = Some k'"
      using pk k(1) by (cases "longestCallingCode (country_calling_codes L) ?t")
        (auto simp: longestCallingCode_None)
    from longestCallingCode_max [OF k' k(1) pk] have "length k \<le> length k'" .
    with npc k' show ?thesis
      unfolding n by (simp add: strip_international [OF cc])
  qed
qed

lemma trimNumber_international:
  assumes cc: "getCountryCallingCode L c = Some cc"
  shows "firstIsPlus (trimNumber L (CHR ''+'' # d) c) \<and>
         nsnCount L (Some (trimNumber L (CHR ''+'' # d) c)) c \<le> maxNumberLength L c"
proof -
  let ?S = "stripCountryCallingCode L (CHR ''+'' # d) (Some c)"
  let ?m = "maxNumberLength L c"
  show ?thesis
  proof (cases "?m < length ?S")
    case True
    then have ne: "?S \<noteq> []" by auto
    from strip_length_le [OF cc, of d] have le: "length ?S \<le> length d + ?m"
      by simp
    from True ne le have t: "trimNumber L (CHR ''+'' # d) c
        = CHR ''+'' # take (length d - (length ?S - ?m)) d"
      by (simp add: trimNumber_def cc getNationalSignificantNumberDigits_def Let_def Suc_diff_le)
    from strip_take [OF cc True] show ?thesis
      unfolding t
      by (simp add: nsnCount_def getNationalSignificantNumberDigits_def Let_def)
  next
    case False
    then have t: "trimNumber L (CHR ''+'' # d) c = CHR ''+'' # d"
      by (simp add: trimNumber_def cc getNationalSignificantNumberDigits_def Let_def)
    from False show ?thesis
      unfolding t
      by (simp add: nsnCount_def getNationalSignificantNumberDigits_def Let_def)
  qed
qed

lemma nsnCount_national:
  "\<not> firstIsPlus x \<Longrightarrow> nsnCount L (Some x) c = length (asYouTypeNationalNumber L c x)"
  by (simp add: nsnCount_def getNationalSignificantNumberDigits_def Let_def)

lemma nsnCount_international:
  "nsnCount L (Some (CHR ''+'' # d)) c
     = length (stripCountryCallingCode L (CHR ''+'' # d) (Some c))"
  by (simp add: nsnCount_def getNationalSignificantNumberDigits_def Let_def)

lemma not_firstIsPlus_take: "\<not> firstIsPlus t \<Longrightarrow> \<not> firstIsPlus (take n t)"
  by (cases t; cases n) auto

lemma not_firstIsPlus_drop1: "\<not> prefix ''++'' t \<Longrightarrow> firstIsPlus t \<Longrightarrow> \<not> firstIsPlus (drop 1 t)"
  by (cases t; cases "tl t") auto

lemma trimNumber_national:
  assumes cc: "getCountryCallingCode L c = Some cc"
    and nat: "\<not> firstIsPlus t"
    and H1: "\<And>t k. \<not> firstIsPlus t \<Longrightarrow> k \<le> length (asYouTypeNationalNumber L c t) \<Longrightarrow>
               length (asYouTypeNationalNumber L c (take (length t - k) t))
                 \<le> length (asYouTypeNationalNumber L c t) - k"
  shows "\<not> firstIsPlus (trimNumber L t c) \<and>
         length (asYouTypeNationalNumber L c (trimNumber L t c)) \<le> maxNumberLength L c"
proof (cases "maxNumberLength L c < length (asYouTypeNationalNumber L c t)")
  case True
  let ?k = "length (asYouTypeNationalNumber L c t) - maxNumberLength L c"
  from True nat have t: "trimNumber L t c = take (length t - ?k) t"
    by (auto simp: trimNumber_def cc getNationalSignificantNumberDigits_def Let_def)
  from H1 [OF nat, of ?k] True
  have "length (asYouTypeNationalNumber L c (take (length t - ?k) t)) \<le> maxNumberLength L c"
    by simp
  with nat show ?thesis
    unfolding t by (simp add: not_firstIsPlus_take)
next
  case False
  with nat have t: "trimNumber L t c = t"
    by (auto simp: trimNumber_def cc getNationalSignificantNumberDigits_def Let_def)
  from False nat show ?thesis
    unfolding t by simp
qed

lemma strip_prefixed_national:
  assumes cc: "getCountryCallingCode L c = Some cc" and "cc \<noteq> []"
    and "[] \<notin> set (country_calling_codes L)"
  shows "length (stripCountryCallingCode L (CHR ''+'' # x) (Some c)) \<le> length x - 1"
proof -
  have "k \<noteq> []" if "longestCallingCode (country_calling_codes L) x = Some k" for k
    using that assms(3) by (auto dest: longestCallingCode_Some)
  with assms(2) show ?thesis
    by (cases cc) (auto simp: strip_international [OF cc] split: option.splits
        simp flip: length_greater_0_conv)
qed

lemma convert_national:
  assumes "\<And>t. \<not> firstIsPlus (parseDigits L t)" and "\<not> prefix ''++'' raw" and "firstIsPlus raw"
  shows "\<not> firstIsPlus (convertInternationalInputToNational L raw c)"
  using assms not_firstIsPlus_drop1 [of raw]
  by (auto simp: convertInternationalInputToNational_def split: option.splits)

lemma getCountryForPartialE164Number_idem:
  "getCountryForPartialE164Number L s (getCountryForPartialE164Number L s ctry cs req) cs req
     = getCountryForPartialE164Number L s ctry cs req"
  by (auto simp: getCountryForPartialE164Number_def Let_def)

lemma e164_international:
  "firstIsPlus s \<Longrightarrow> e164 L (Some s) ctry = (if s = ''+'' then None else Some s)"
  by (cases s) (auto simp: e164_def)

lemma e164_empty: "\<not> truthy inp \<Longrightarrow> e164 L inp ctry = None"
  by (simp add: e164_def)

lemma parseInput_fst:
  assumes "\<not> (intl = Some False \<and> firstIsPlus (the (parseInput_buffer L inp ctry dflt intl lim)))"
  shows "fst (parseInput L inp prev ctry dflt cs incl intl lim)
         = parseInput_buffer L inp ctry dflt intl lim"
proof -
  have a: "(intl = Some False \<and> Q
            \<and> firstIsPlus (the (parseInput_buffer L inp ctry dflt intl lim))) = False" for Q
    using assms by blast
  show ?thesis
    by (simp add: parseInput_def Let_def a)
qed

text \<open>
  Where \<open>limitMaxLength\<close> bounds the national significant digits of the returned buffer:
  for a selected country the library knows, a new input with at most one leading \<open>+\<close>,
  and a library whose national number of a national buffer loses at least \<open>k\<close> digits
  when \<open>k\<close> characters are cut off the end of the buffer and is at most one digit shorter
  than the buffer, whose \<open>parseDigits\<close> gives no \<open>+\<close> and whose calling codes are not
  empty. The small numbering plan is such a library for \<open>RU\<close>.
\<close>

lemma parseInput_buffer_bound:
  assumes cc: "getCountryCallingCode L c = Some cc" and c: "c \<noteq> []" and cc_ne: "cc \<noteq> []"
    and codes: "[] \<notin> set (country_calling_codes L)"
    and H1: "\<And>t k. \<not> firstIsPlus t \<Longrightarrow> k \<le> length (asYouTypeNationalNumber L c t) \<Longrightarrow>
               length (asYouTypeNationalNumber L c (take (length t - k) t))
                 \<le> length (asYouTypeNationalNumber L c t) - k"
    and H2: "\<And>t. \<not> firstIsPlus t \<Longrightarrow> length t \<le> Suc (length (asYouTypeNationalNumber L c t))"
    and H3: "\<And>t. \<not> firstIsPlus (parseDigits L t)"
    and raw: "\<not> prefix ''++'' raw"
  shows "nsnCount L (parseInput_buffer L (Some raw) (Some c) dflt intl True) c
           \<le> maxNumberLength L c \<and>
         (intl = Some False
            \<longrightarrow> \<not> firstIsPlus (the (parseInput_buffer L (Some raw) (Some c) dflt intl True)))"
proof -
  define v where "v = (if intl = Some False \<and> raw \<noteq> [] \<and> firstIsPlus raw
                       then convertInternationalInputToNational L raw c else raw)"
  define x where "x = (if v \<noteq> [] then trimNumber L v c else v)"
  have buf: "parseInput_buffer L (Some raw) (Some c) dflt intl True =
               (if x \<noteq> [] \<and> \<not> firstIsPlus x \<and> intl = Some True
                then Some (CHR ''+'' # x) else Some x)"
    using c by (auto simp: parseInput_buffer_def Let_def x_def v_def)
  have v_nat: "\<not> firstIsPlus v" if "intl = Some False"
    using that convert_national [OF H3 raw] by (auto simp: v_def)
  from H1 [of "[]" "length (asYouTypeNationalNumber L c [])"]
  have empty: "asYouTypeNationalNumber L c [] = []"
    by simp
  show ?thesis
  proof (cases "firstIsPlus v")
    case True
    then obtain d where d: "v = CHR ''+'' # d"
      by (cases v) auto
    from True v_nat have "intl \<noteq> Some False"
      by blast
    with trimNumber_international [OF cc, of d] show ?thesis
      unfolding buf x_def d by simp
  next
    case False
    have xn: "\<not> firstIsPlus x \<and> length (asYouTypeNationalNumber L c x) \<le> maxNumberLength L c"
      using trimNumber_national [OF cc False H1] False empty
      by (simp add: x_def)
    show ?thesis
    proof (cases "x \<noteq> [] \<and> intl = Some True")
      case True
      from xn have n1: "\<not> firstIsPlus x"
        and n2: "length (asYouTypeNationalNumber L c x) \<le> maxNumberLength L c"
        by simp_all
      from strip_prefixed_national [OF cc cc_ne codes, of x] H2 [OF n1] n2
      have "length (stripCountryCallingCode L (CHR ''+'' # x) (Some c)) \<le> maxNumberLength L c"
        by arith
      with True xn show ?thesis
        unfolding buf by (simp add: nsnCount_international)
    next
      case False
      with xn show ?thesis
        unfolding buf by (auto simp: nsnCount_national)
    qed
  qed
qed

lemma sample_national_RU:
  assumes "\<not> firstIsPlus t"
  shows "asYouTypeNationalNumber sample_lib ''RU'' t = (if prefix ''8'' t then drop 1 t else t)"
  using assms
  by (simp add: sample_lib_def sample_asYouType_def sample_callingCodeOf_def
      sample_nationalPrefix_def Let_def)

lemma sample_truncation_RU:
  assumes nat: "\<not> firstIsPlus t" and k: "k \<le> length (asYouTypeNationalNumber sample_lib ''RU'' t)"
  shows "length (asYouTypeNationalNumber sample_lib ''RU'' (take (length t - k) t))
           \<le> length (asYouTypeNationalNumber sample_lib ''RU'' t) - k"
proof (cases "prefix ''8'' t")
  case True
  then obtain ts where t: "t = CHR ''8'' # ts"
    by (cases t) auto
  from k have "k \<le> length ts"
    unfolding sample_national_RU [OF nat] by (simp add: t)
  then have "take (length t - k) t = CHR ''8'' # take (length ts - k) ts"
    by (simp add: t Suc_diff_le)
  then show ?thesis
    unfolding sample_national_RU [OF nat] sample_national_RU [OF not_firstIsPlus_take [OF nat]]
    by (simp add: t)
next
  case False
  then have "\<not> prefix ''8'' (take (length t - k) t)"
    by (cases t; cases "length t - k") auto
  with False show ?thesis
    unfolding sample_national_RU [OF nat] sample_national_RU [OF not_firstIsPlus_take [OF nat]]
    by simp
qed

lemma sample_parseDigits: "\<not> firstIsPlus (parseDigits sample_lib t)"
proof (cases "parseDigits sample_lib t")
  case Nil
  then show ?thesis by simp
next
  case (Cons d ds)
  then have "d \<in> set (filter (\<lambda>c. c \<in> set ''0123456789'') t)"
    by (simp add: sample_lib_def)
  then have "d \<noteq> CHR ''+''"
    by auto
  with Cons show ?thesis by simp
qed

lemma parseInput_limit_bound:
  assumes cc: "getCountryCallingCode L c = Some cc" and c: "c \<noteq> []" and cc_ne: "cc \<noteq> []"
    and codes: "[] \<notin> set (country_calling_codes L)"
    and H1: "\<And>t k. \<not> firstIsPlus t \<Longrightarrow> k \<le> length (asYouTypeNationalNumber L c t) \<Longrightarrow>
               length (asYouTypeNationalNumber L c (take (length t - k) t))
                 \<le> length (asYouTypeNationalNumber L c t) - k"
    and H2: "\<And>t. \<not> firstIsPlus t \<Longrightarrow> length t \<le> Suc (length (asYouTypeNationalNumber L c t))"
    and H3: "\<And>t. \<not> firstIsPlus (parseDigits L t)"
    and raw: "\<not> prefix ''++'' raw"
  shows "nsnCount L (fst (parseInput L (Some raw) prev (Some c) dflt cs incl intl True)) c
           \<le> maxNumberLength L c"
proof -
  note b = parseInput_buffer_bound [OF cc c cc_ne codes H1 H2 H3 raw, of dflt intl]
  from b have "fst (parseInput L (Some raw) prev (Some c) dflt cs incl intl True)
      = parseInput_buffer L (Some raw) (Some c) dflt intl True"
    by (intro parseInput_fst) blast
  with b show ?thesis
    by simp
qed

lemma trimNumber_example:
  assumes "getCountryCallingCode L ''RU'' = Some cc"
    and "asYouTypeNationalNumber L ''RU'' ''880055535351'' = ''80055535351''"
    and "maxNumberLength L ''RU'' = 10"
  shows "trimNumber L ''880055535351'' ''RU'' = ''88005553535''"
  using assms by (simp add: trimNumber_def getNationalSignificantNumberDigits_def Let_def)

lemma parseInput_limit_bound_sample:
  assumes raw: "\<not> prefix ''++'' raw"
  shows "nsnCount sample_lib
           (fst (parseInput sample_lib (Some raw) prev (Some ''RU'') dflt cs incl intl True)) ''RU''
         \<le> maxNumberLength sample_lib ''RU''"
proof -
  have cc: "getCountryCallingCode sample_lib ''RU'' = Some ''7''"
    and codes: "[] \<notin> set (country_calling_codes sample_lib)"
    by code_simp+
  have H2: "length t \<le> Suc (length (asYouTypeNationalNumber sample_lib ''RU'' t))"
    if "\<not> firstIsPlus t" for t
    unfolding sample_national_RU [OF that] by (cases t) auto
  show ?thesis
    by (rule parseInput_limit_bound
          [OF cc _ _ codes sample_truncation_RU H2 sample_parseDigits raw]) simp_all
qed

text \<open>
  \<open>parseInput\<close> on its own output. \<open>parseInput_cases\<close> gives the three ways a result comes
  about: no value, a value for the buffer as it is, and a value for an international buffer
  that is converted to the national format of the country found for it.
\<close>

lemma e164_None_or_truthy: "e164 L x c = None \<or> truthy (e164 L x c)"
  by (cases x) (auto simp: e164_def split: option.splits)

lemma e164_truthy_input: "truthy (e164 L x c) \<Longrightarrow> truthy x"
  by (auto simp: e164_def split: if_splits)

lemma e164_national_country:
  assumes "e164 L (Some s) c = Some v" and "\<not> firstIsPlus s"
  shows "\<exists>k cc nsn. c = Some k \<and> k \<noteq> [] \<and> getCountryCallingCode L k = Some cc \<and> v = CHR ''+'' # cc @ nsn"
  using assms by (cases c) (auto simp: e164_def split: if_splits option.splits)

lemma trimNumber_cases: "trimNumber L num c = num \<or> (\<exists>k. trimNumber L num c = take k num)"
  by (auto simp: trimNumber_def split: option.splits)

lemma trimNumber_not_plus: "\<not> firstIsPlus num \<Longrightarrow> \<not> firstIsPlus (trimNumber L num c)"
  using trimNumber_cases [of L num c] not_firstIsPlus_take [of num] by auto

lemma trimNumber_idem_international:
  assumes "firstIsPlus s"
  shows "trimNumber L (trimNumber L s c) c = trimNumber L s c"
proof (cases "getCountryCallingCode L c")
  case None
  then show ?thesis by (simp add: trimNumber_def)
next
  case (Some cc)
  from assms obtain d where s: "s = CHR ''+'' # d" by (cases s) auto
  from trimNumber_international [OF Some, of d]
  have p: "firstIsPlus (trimNumber L s c)"
    and n: "nsnCount L (Some (trimNumber L s c)) c \<le> maxNumberLength L c"
    unfolding s by blast+
  from n show ?thesis
    by (simp add: trimNumber_def [of L "trimNumber L s c"] nsnCount_def Some split: option.splits)
qed

lemma parseInput_buffer_noconv:
  assumes "\<not> (intl = Some False \<and> truthy ctry \<and> truthy inp \<and> firstIsPlus (the inp))"
  shows "parseInput_buffer L inp ctry dflt intl lim =
     (if truthy (if truthy inp \<and> truthy ctry \<and> lim
                 then Some (trimNumber L (the inp) (the ctry)) else inp)
         \<and> \<not> firstIsPlus (the (if truthy inp \<and> truthy ctry \<and> lim
                 then Some (trimNumber L (the inp) (the ctry)) else inp))
         \<and> (intl = Some True \<or> (\<not> truthy ctry \<and> \<not> truthy dflt))
      then Some (CHR ''+'' # the (if truthy inp \<and> truthy ctry \<and> lim
                 then Some (trimNumber L (the inp) (the ctry)) else inp))
      else (if truthy inp \<and> truthy ctry \<and> lim
                 then Some (trimNumber L (the inp) (the ctry)) else inp))"
proof -
  have a: "(intl = Some False \<and> truthy ctry \<and> truthy inp \<and> firstIsPlus (the inp)) = False"
    using assms by blast
  show ?thesis
    unfolding parseInput_buffer_def by (simp only: a if_False Let_def)
qed

lemma parseInput_buffer_national:
  assumes b: "parseInput_buffer L inp ctry dflt intl lim = Some b"
    and ne: "b \<noteq> []" and nat: "\<not> firstIsPlus b"
  shows "intl \<noteq> Some True \<and> (truthy ctry \<or> truthy dflt)"
proof -
  define i1 where "i1 = (if intl = Some False \<and> truthy ctry \<and> truthy inp \<and> firstIsPlus (the inp)
             then Some (convertInternationalInputToNational L (the inp) (the ctry))
             else inp)"
  define i2 where "i2 = (if truthy i1 \<and> truthy ctry \<and> lim
             then Some (trimNumber L (the i1) (the ctry))
             else i1)"
  have eq: "parseInput_buffer L inp ctry dflt intl lim =
      (if truthy i2 \<and> \<not> firstIsPlus (the i2)
         \<and> (intl = Some True \<or> (\<not> truthy ctry \<and> \<not> truthy dflt))
       then Some (CHR ''+'' # the i2) else i2)"
    by (simp only: parseInput_buffer_def i1_def i2_def Let_def)
  show ?thesis
  proof (rule ccontr)
    assume "\<not> ?thesis"
    then have p: "intl = Some True \<or> (\<not> truthy ctry \<and> \<not> truthy dflt)"
      by blast
    show False
    proof (cases "truthy i2 \<and> \<not> firstIsPlus (the i2)")
      case True
      with p eq b have "Some b = Some (CHR ''+'' # the i2)"
        by simp
      with nat show False by simp
    next
      case False
      with eq b have "i2 = Some b" by auto
      with False ne nat show False by simp
    qed
  qed
qed

lemma parseInput_buffer_national_input:
  assumes "intl = Some False" and "truthy ctry"
    and "truthy inp \<longrightarrow> \<not> firstIsPlus (the inp)"
  shows "\<not> (truthy (parseInput_buffer L inp ctry dflt intl lim)
            \<and> firstIsPlus (the (parseInput_buffer L inp ctry dflt intl lim)))"
proof -
  from assms(3) have nc: "\<not> (intl = Some False \<and> truthy ctry \<and> truthy inp \<and> firstIsPlus (the inp))"
    by blast
  have p: "(intl = Some True \<or> (\<not> truthy ctry \<and> \<not> truthy dflt)) = False"
    using assms(1,2) by simp
  have eq: "parseInput_buffer L inp ctry dflt intl lim =
      (if truthy inp \<and> truthy ctry \<and> lim
       then Some (trimNumber L (the inp) (the ctry)) else inp)"
    unfolding parseInput_buffer_noconv [OF nc] by (simp only: p simp_thms if_False)
  show ?thesis
  proof (cases "truthy inp \<and> truthy ctry \<and> lim")
    case True
    with assms(3) have "\<not> firstIsPlus (trimNumber L (the inp) (the ctry))"
      by (intro trimNumber_not_plus) blast
    with True show ?thesis
      unfolding eq by simp
  next
    case False
    with assms(3) show ?thesis
      unfolding eq by auto
  qed
qed

lemma parseInput_buffer_stable:
  assumes noconv: "intl = Some False \<and> truthy c \<and> truthy x \<longrightarrow> \<not> firstIsPlus (the x)"
    and fit: "lim \<and> truthy c \<and> truthy x \<longrightarrow> trimNumber L (the x) (the c) = the x"
    and noprefix: "truthy x \<and> \<not> firstIsPlus (the x)
                     \<longrightarrow> \<not> (intl = Some True \<or> (\<not> truthy c \<and> \<not> truthy dflt))"
  shows "parseInput_buffer L x c dflt intl lim = x"
proof -
  from noconv have nc: "\<not> (intl = Some False \<and> truthy c \<and> truthy x \<and> firstIsPlus (the x))"
    by blast
  have i2: "(if truthy x \<and> truthy c \<and> lim
             then Some (trimNumber L (the x) (the c)) else x) = x"
    using fit by (cases x) auto
  from noprefix show ?thesis
    unfolding parseInput_buffer_noconv [OF nc] i2 by auto
qed

lemma parseInput_buffer_fixed_fit:
  assumes fixed: "parseInput_buffer L x c dflt intl lim = x"
    and noconv: "intl = Some False \<and> truthy c \<and> truthy x \<longrightarrow> \<not> firstIsPlus (the x)"
    and l: "lim \<and> truthy c \<and> truthy x"
  shows "trimNumber L (the x) (the c) = the x"
proof -
  from noconv have nc: "\<not> (intl = Some False \<and> truthy c \<and> truthy x \<and> firstIsPlus (the x))"
    by blast
  from l obtain s where x: "x = Some s" and s: "s \<noteq> []"
    by (cases x) auto
  let ?t = "trimNumber L s (the c)"
  have i2: "(if truthy x \<and> truthy c \<and> lim
             then Some (trimNumber L (the x) (the c)) else x) = Some ?t"
    using l x by simp
  from fixed have "(if truthy (Some ?t) \<and> \<not> firstIsPlus (the (Some ?t))
         \<and> (intl = Some True \<or> (\<not> truthy c \<and> \<not> truthy dflt))
      then Some (CHR ''+'' # the (Some ?t)) else Some ?t) = x"
    unfolding parseInput_buffer_noconv [OF nc] i2 .
  then have f: "(if truthy (Some ?t) \<and> \<not> firstIsPlus (the (Some ?t))
         \<and> (intl = Some True \<or> (\<not> truthy c \<and> \<not> truthy dflt))
      then Some (CHR ''+'' # the (Some ?t)) else Some ?t) = Some s"
    unfolding x .
  have "?t = s"
  proof (cases "?t \<noteq> [] \<and> \<not> firstIsPlus ?t
         \<and> (intl = Some True \<or> (\<not> truthy c \<and> \<not> truthy dflt))")
    case True
    with f have e: "s = CHR ''+'' # ?t" by simp
    from trimNumber_cases [of L s "the c"] show ?thesis
    proof
      assume "?t = s"
      then show ?thesis .
    next
      assume "\<exists>k. ?t = take k s"
      then obtain k where k: "?t = take k s" by blast
      show ?thesis
      proof (cases k)
        case 0
        with k True show ?thesis by simp
      next
        case (Suc n)
        with k e have "?t = CHR ''+'' # take n ?t"
          by (metis take_Suc_Cons)
        then have "firstIsPlus ?t"
          by (metis firstIsPlus_simps(2))
        with True show ?thesis by blast
      qed
    qed
  next
    case False
    with f show ?thesis by auto
  qed
  with x show ?thesis by simp
qed

lemma trimNumber_keeps_plus: "firstIsPlus s \<Longrightarrow> firstIsPlus (trimNumber L s c)"
proof (cases "getCountryCallingCode L c")
  case None
  assume "firstIsPlus s"
  with None show ?thesis by (simp add: trimNumber_def)
next
  case (Some cc)
  assume "firstIsPlus s"
  then obtain d where s: "s = CHR ''+'' # d" by (cases s) auto
  from trimNumber_international [OF Some, of d] show ?thesis
    unfolding s by blast
qed

lemma getCountryForPartialE164Number_truthy:
  assumes "truthy ctry" and "couldNumberBelongToCountry L v (the ctry)"
  shows "truthy (getCountryForPartialE164Number L v ctry cs req)"
  using assms by (simp add: getCountryForPartialE164Number_def Let_def)

lemma parseInput_cases [consumes 1, case_names novalue valued converted]:
  assumes r: "parseInput L inp prev ctry dflt cs incl intl lim = (inp', ctry', val')"
  obtains
    c2 where "inp' = parseInput_buffer L inp ctry dflt intl lim" and "ctry' = c2"
      and "val' = None" and "\<not> truthy (e164 L inp' c2)"
      and "truthy inp' \<and> inp' \<noteq> Some ''+'' \<longrightarrow> c2 = ctry" and "prev = inp' \<longrightarrow> c2 = ctry"
      and "truthy inp' \<longrightarrow> c2 = None \<or> c2 = ctry"
  | v where "inp' = parseInput_buffer L inp ctry dflt intl lim"
      and "e164 L inp' ctry = Some v" and "v \<noteq> []"
      and "ctry' = getCountryForPartialE164Number L v ctry cs (\<not> incl)" and "val' = Some v"
      and "\<not> (intl = Some False \<and> truthy ctry' \<and> firstIsPlus (the inp'))"
  | v where "e164 L (parseInput_buffer L inp ctry dflt intl lim) ctry = Some v" and "v \<noteq> []"
      and "ctry' = getCountryForPartialE164Number L v ctry cs (\<not> incl)"
      and "intl = Some False" and "truthy ctry'"
      and "firstIsPlus (the (parseInput_buffer L inp ctry dflt intl lim))"
      and "inp' = Some (convertInternationalInputToNational L
                         (the (parseInput_buffer L inp ctry dflt intl lim)) (the ctry'))"
      and "val' = e164 L inp' ctry'"
proof -
  define b where "b = parseInput_buffer L inp ctry dflt intl lim"
  define c1 where "c1 = (if \<not> truthy b \<and> truthy prev \<and> firstIsPlus (the prev)
             then (if intl = Some True then None else dflt)
             else ctry)"
  define c2 where "c2 = (if b = Some ''+'' \<and> truthy prev \<and> firstIsPlus (the prev)
                \<and> 1 < length (the prev)
             then None
             else c1)"
  define v1 where "v1 = e164 L b c2"
  define c3 where "c3 = getCountryForPartialE164Number L (the v1) c2 cs (\<not> incl)"
  have eq: "parseInput L inp prev ctry dflt cs incl intl lim =
     (if truthy v1 then
        (if intl = Some False \<and> truthy c3 \<and> firstIsPlus (the b) then
           (Some (convertInternationalInputToNational L (the b) (the c3)), c3,
            e164 L (Some (convertInternationalInputToNational L (the b) (the c3))) c3)
         else (b, c3, v1))
      else (b, c2, None))"
    by (simp only: parseInput_def Let_def b_def c1_def c2_def v1_def c3_def)
  have c2_ctry: "c2 = ctry" if "truthy b" "b \<noteq> Some ''+''"
    using that by (simp add: c2_def c1_def)
  have c2_prev: "c2 = ctry" if "prev = b"
    using that by (cases b) (auto simp: c2_def c1_def)
  show thesis
  proof (cases "truthy v1")
    case False
    have "(inp', ctry', val') = (b, c2, None)"
      unfolding r [symmetric] eq using False by simp
    then have e: "inp' = b" "ctry' = c2" "val' = None"
      by blast+
    from False have nv: "\<not> truthy (e164 L inp' c2)"
      by (simp add: v1_def e(1))
    have "truthy b \<longrightarrow> c2 = None \<or> c2 = ctry"
      by (simp add: c2_def c1_def)
    with c2_ctry c2_prev e(1)
    have "truthy inp' \<and> inp' \<noteq> Some ''+'' \<longrightarrow> c2 = ctry" "prev = inp' \<longrightarrow> c2 = ctry"
      "truthy inp' \<longrightarrow> c2 = None \<or> c2 = ctry"
      by blast+
    with e nv show thesis
      unfolding b_def by (intro that(1) [of c2])
  next
    case True
    then have tb: "truthy b"
      unfolding v1_def by (rule e164_truthy_input)
    from True have "b \<noteq> Some ''+''"
      by (auto simp: v1_def e164_def)
    with tb have c: "c2 = ctry"
      by (rule c2_ctry)
    from True obtain v where v: "v1 = Some v" "v \<noteq> []"
      by (cases v1) auto
    from v(1) have ev: "e164 L b ctry = Some v"
      by (simp add: v1_def c)
    have c3: "c3 = getCountryForPartialE164Number L v ctry cs (\<not> incl)"
      by (simp add: c3_def v(1) c)
    show thesis
    proof (cases "intl = Some False \<and> truthy c3 \<and> firstIsPlus (the b)")
      case conv: True
      have "(inp', ctry', val') =
          (Some (convertInternationalInputToNational L (the b) (the c3)), c3,
           e164 L (Some (convertInternationalInputToNational L (the b) (the c3))) c3)"
        unfolding r [symmetric] eq using True conv by simp
      then have e: "inp' = Some (convertInternationalInputToNational L (the b) (the c3))"
        "ctry' = c3"
        "val' = e164 L (Some (convertInternationalInputToNational L (the b) (the c3))) c3"
        by blast+
      from e(1,2) have i: "inp' = Some (convertInternationalInputToNational L (the b) (the ctry'))"
        by simp
      from e have w: "val' = e164 L inp' ctry'"
        by simp
      from conv e(2) have k: "intl = Some False" "truthy ctry'" "firstIsPlus (the b)"
        by simp_all
      from e(2) c3 have g: "ctry' = getCountryForPartialE164Number L v ctry cs (\<not> incl)"
        by simp
      from ev v(2) g k i w show thesis
        unfolding b_def by (intro that(3) [of v])
    next
      case False
      have "(inp', ctry', val') = (b, c3, v1)"
        unfolding r [symmetric] eq using True False by auto
      then have e: "inp' = b" "ctry' = c3" "val' = v1"
        by blast+
      from False e have n: "\<not> (intl = Some False \<and> truthy ctry' \<and> firstIsPlus (the inp'))"
        by simp
      from e(2) c3 have g: "ctry' = getCountryForPartialE164Number L v ctry cs (\<not> incl)"
        by simp
      from ev e(1) have ev': "e164 L inp' ctry = Some v"
        by simp
      from e(1) ev' v(2) g e(3) v(1) n show thesis
        unfolding b_def by (intro that(2) [of v]) simp_all
    qed
  qed
qed

lemma couldNumberBelongToCountry_own:
  "getCountryCallingCode L k = Some cc \<Longrightarrow> couldNumberBelongToCountry L (CHR ''+'' # cc @ nsn) k"
  by (simp add: couldNumberBelongToCountry_def)

lemma parseInput_output_noprefix:
  assumes r: "parseInput L inp prev ctry dflt cs incl intl lim = (inp', ctry', val')"
    and t: "truthy inp'" and n: "\<not> firstIsPlus (the inp')"
  shows "intl \<noteq> Some True \<and> (truthy ctry' \<or> truthy dflt)"
  using r
proof (cases rule: parseInput_cases)
  case (novalue c2)
  from t obtain s where s: "inp' = Some s" "s \<noteq> []"
    by (cases inp') auto
  from n s have "inp' \<noteq> Some ''+''"
    by auto
  with novalue(2,5) t have c: "ctry' = ctry"
    by simp
  from novalue(1) s(1) have "parseInput_buffer L inp ctry dflt intl lim = Some s"
    by simp
  from parseInput_buffer_national [OF this s(2)] n s(1) show ?thesis
    unfolding c by simp
next
  case (valued v)
  from t obtain s where s: "inp' = Some s" "s \<noteq> []"
    by (cases inp') auto
  from valued(1) s(1) have "parseInput_buffer L inp ctry dflt intl lim = Some s"
    by simp
  from parseInput_buffer_national [OF this s(2)] n s(1)
  have p: "intl \<noteq> Some True" "truthy ctry \<or> truthy dflt"
    by simp_all
  from valued(2) s(1) n have "e164 L (Some s) ctry = Some v" "\<not> firstIsPlus s"
    by simp_all
  from e164_national_country [OF this]
  obtain k cc nsn where k: "ctry = Some k" "k \<noteq> []" "getCountryCallingCode L k = Some cc"
    "v = CHR ''+'' # cc @ nsn"
    by blast
  from couldNumberBelongToCountry_own [OF k(3), of nsn] k
  have "truthy ctry" "couldNumberBelongToCountry L v (the ctry)"
    by simp_all
  from getCountryForPartialE164Number_truthy [OF this, of cs "\<not> incl"] valued(4)
  have "truthy ctry'"
    by simp
  with p show ?thesis
    by blast
next
  case (converted v)
  then show ?thesis
    by simp
qed

lemma parseInput_refeed_formula:
  assumes b: "parseInput_buffer L x c dflt intl lim = x"
  shows "parseInput L x x c dflt cs incl intl lim =
     (if truthy (e164 L x c) then
        (if intl = Some False
            \<and> truthy (getCountryForPartialE164Number L (the (e164 L x c)) c cs (\<not> incl))
            \<and> firstIsPlus (the x)
         then
           (Some (convertInternationalInputToNational L (the x)
                    (the (getCountryForPartialE164Number L (the (e164 L x c)) c cs (\<not> incl)))),
            getCountryForPartialE164Number L (the (e164 L x c)) c cs (\<not> incl),
            e164 L (Some (convertInternationalInputToNational L (the x)
                      (the (getCountryForPartialE164Number L (the (e164 L x c)) c cs (\<not> incl)))))
              (getCountryForPartialE164Number L (the (e164 L x c)) c cs (\<not> incl)))
         else (x, getCountryForPartialE164Number L (the (e164 L x c)) c cs (\<not> incl), e164 L x c))
      else (x, c, None))"
proof -
  have a1: "(\<not> truthy x \<and> truthy x \<and> firstIsPlus (the x)) = False"
    by blast
  have a2: "(x = Some ''+'' \<and> truthy x \<and> firstIsPlus (the x) \<and> 1 < length (the x)) = False"
    by auto
  show ?thesis
    unfolding parseInput_def b by (simp only: a1 a2 if_False Let_def)
qed

lemma parseInput_refeed_if:
  assumes r: "parseInput L inp prev ctry dflt cs incl intl lim = (inp', ctry', val')"
    and noconv: "intl = Some False \<and> truthy ctry' \<and> truthy inp' \<longrightarrow> \<not> firstIsPlus (the inp')"
    and fit: "lim \<and> truthy ctry' \<and> truthy inp'
                \<longrightarrow> trimNumber L (the inp') (the ctry') = the inp'"
    and val: "e164 L inp' ctry' = val'"
    and ctr: "truthy val'
                \<longrightarrow> getCountryForPartialE164Number L (the val') ctry' cs (\<not> incl) = ctry'"
  shows "parseInput L inp' inp' ctry' dflt cs incl intl lim = (inp', ctry', val')"
proof -
  from parseInput_output_noprefix [OF r]
  have "truthy inp' \<and> \<not> firstIsPlus (the inp')
          \<longrightarrow> \<not> (intl = Some True \<or> (\<not> truthy ctry' \<and> \<not> truthy dflt))"
    by blast
  from parseInput_buffer_stable [OF noconv fit this]
  have b: "parseInput_buffer L inp' ctry' dflt intl lim = inp'" .
  show ?thesis
  proof (cases "truthy val'")
    case True
    with val have "truthy inp'"
      by (intro e164_truthy_input [of L inp' ctry']) simp
    with noconv
    have n: "(intl = Some False \<and> truthy ctry' \<and> firstIsPlus (the inp')) = False"
      by blast
    from True ctr
    have g: "getCountryForPartialE164Number L (the val') ctry' cs (\<not> incl) = ctry'"
      by blast
    from True show ?thesis
      unfolding parseInput_refeed_formula [OF b] val g by (simp only: n if_True if_False)
  next
    case False
    with e164_None_or_truthy [of L inp' ctry'] val have "val' = None"
      by auto
    with False show ?thesis
      unfolding parseInput_refeed_formula [OF b] val by simp
  qed
qed

lemma parseInput_refeed_only_if:
  assumes s: "parseInput L x x c dflt cs incl intl lim = (x, c, v)"
    and noconv: "intl = Some False \<and> truthy c \<and> truthy x \<longrightarrow> \<not> firstIsPlus (the x)"
  shows "(lim \<and> truthy c \<and> truthy x \<longrightarrow> trimNumber L (the x) (the c) = the x) \<and>
         e164 L x c = v \<and>
         (truthy v \<longrightarrow> getCountryForPartialE164Number L (the v) c cs (\<not> incl) = c)"
  using s
proof (cases rule: parseInput_cases)
  case (novalue c2)
  from novalue(1) have b: "parseInput_buffer L x c dflt intl lim = x"
    by simp
  from novalue(2,6) have "c2 = c"
    by simp
  with novalue(4) e164_None_or_truthy [of L x c] have "e164 L x c = None"
    by auto
  with novalue(3) parseInput_buffer_fixed_fit [OF b noconv] show ?thesis
    by auto
next
  case (valued w)
  from valued(1) have b: "parseInput_buffer L x c dflt intl lim = x"
    by simp
  from valued(2,4,5) parseInput_buffer_fixed_fit [OF b noconv] show ?thesis
    by auto
next
  case (converted w)
  from converted(1) have "truthy (e164 L (parseInput_buffer L x c dflt intl lim) c)"
    using converted(2) by simp
  then have "truthy (parseInput_buffer L x c dflt intl lim)"
    by (rule e164_truthy_input)
  moreover from noconv converted(4,5) have "truthy x \<longrightarrow> \<not> firstIsPlus (the x)"
    by blast
  from parseInput_buffer_national_input [OF converted(4,5) this, of L dflt lim]
  have "\<not> (truthy (parseInput_buffer L x c dflt intl lim)
            \<and> firstIsPlus (the (parseInput_buffer L x c dflt intl lim)))" .
  ultimately show ?thesis
    using converted(6) by blast
qed

lemma parseInput_output_value:
  assumes r: "parseInput L inp prev ctry dflt cs incl intl lim = (inp', ctry', val')"
    and shape: "\<not> truthy inp' \<or> firstIsPlus (the inp') \<or> ctry' = ctry"
  shows "e164 L inp' ctry' = val'"
  using r
proof (cases rule: parseInput_cases)
  case (novalue c2)
  with e164_None_or_truthy [of L inp' c2] show ?thesis
    by auto
next
  case (valued v)
  from valued(2,3) have "truthy (e164 L inp' ctry)"
    by simp
  then have "truthy inp'"
    by (rule e164_truthy_input)
  then obtain s where s: "inp' = Some s" "s \<noteq> []"
    by (cases inp') auto
  show ?thesis
  proof (cases "firstIsPlus s")
    case True
    from e164_international [OF True, of L ctry'] e164_international [OF True, of L ctry]
      valued(2,5) s(1) show ?thesis
      by simp
  next
    case False
    with shape s have "ctry' = ctry"
      by simp
    with valued(2,5) show ?thesis
      by simp
  qed
next
  case (converted v)
  then show ?thesis
    by simp
qed

lemma parseInput_output_country:
  assumes r: "parseInput L inp prev ctry dflt cs incl intl lim = (inp', ctry', val')"
    and intl: "intl \<noteq> Some False"
  shows "truthy val' \<longrightarrow> getCountryForPartialE164Number L (the val') ctry' cs (\<not> incl) = ctry'"
  using r
proof (cases rule: parseInput_cases)
  case (novalue c2)
  then show ?thesis
    by simp
next
  case (valued v)
  then show ?thesis
    by (simp add: getCountryForPartialE164Number_idem)
next
  case (converted v)
  with intl show ?thesis
    by simp
qed

lemma parseInput_output_fits:
  assumes r: "parseInput L (Some s) prev ctry dflt cs incl intl lim = (inp', ctry', val')"
    and s: "firstIsPlus s" and intl: "intl \<noteq> Some False" and same: "ctry' = ctry"
  shows "lim \<and> truthy ctry' \<and> truthy inp' \<longrightarrow> trimNumber L (the inp') (the ctry') = the inp'"
proof
  assume l: "lim \<and> truthy ctry' \<and> truthy inp'"
  from s have ne: "s \<noteq> []"
    by auto
  from intl
  have nc: "\<not> (intl = Some False \<and> truthy ctry \<and> truthy (Some s) \<and> firstIsPlus (the (Some s)))"
    by blast
  have i2: "(if truthy (Some s) \<and> truthy ctry \<and> lim
             then Some (trimNumber L (the (Some s)) (the ctry)) else Some s)
            = Some (trimNumber L s (the ctry))"
    using l ne same by simp
  from trimNumber_keeps_plus [OF s, of L "the ctry"]
  have b: "parseInput_buffer L (Some s) ctry dflt intl lim = Some (trimNumber L s (the ctry))"
    unfolding parseInput_buffer_noconv [OF nc] i2 by auto
  from r intl have "inp' = parseInput_buffer L (Some s) ctry dflt intl lim"
    by (cases rule: parseInput_cases) simp_all
  with b have "inp' = Some (trimNumber L s (the ctry))"
    by simp
  with trimNumber_idem_international [OF s, of L "the ctry"] same
  show "trimNumber L (the inp') (the ctry') = the inp'"
    by simp
qed

lemma parseInput_refeed_same_country:
  assumes r: "parseInput L (Some s) prev ctry dflt cs incl intl lim = (inp', ctry', val')"
    and s: "firstIsPlus s" and intl: "intl \<noteq> Some False" and same: "ctry' = ctry"
  shows "parseInput L inp' inp' ctry' dflt cs incl intl lim = (inp', ctry', val')"
proof -
  from intl have noconv: "intl = Some False \<and> truthy ctry' \<and> truthy inp'
      \<longrightarrow> \<not> firstIsPlus (the inp')"
    by blast
  from same have shape: "\<not> truthy inp' \<or> firstIsPlus (the inp') \<or> ctry' = ctry"
    by blast
  show ?thesis
    by (rule parseInput_refeed_if [OF r noconv parseInput_output_fits [OF r s intl same]
          parseInput_output_value [OF r shape] parseInput_output_country [OF r intl]])
qed

lemma parseInput_refeed_untrimmed:
  assumes r: "parseInput L inp prev ctry dflt cs incl intl lim = (inp', ctry', val')"
    and intl: "intl \<noteq> Some False" and lim: "\<not> lim \<or> \<not> truthy ctry'"
    and shape: "\<not> truthy inp' \<or> firstIsPlus (the inp') \<or> ctry' = ctry"
  shows "parseInput L inp' inp' ctry' dflt cs incl intl lim = (inp', ctry', val')"
proof -
  from intl have noconv: "intl = Some False \<and> truthy ctry' \<and> truthy inp'
      \<longrightarrow> \<not> firstIsPlus (the inp')"
    by blast
  from lim have fit: "lim \<and> truthy ctry' \<and> truthy inp'
      \<longrightarrow> trimNumber L (the inp') (the ctry') = the inp'"
    by blast
  show ?thesis
    by (rule parseInput_refeed_if [OF r noconv fit
          parseInput_output_value [OF r shape] parseInput_output_country [OF r intl]])
qed

lemma parseInput_buffer_selected_national:
  assumes intl: "intl = Some False" and c: "truthy ctry"
    and H3: "\<And>t. \<not> firstIsPlus (parseDigits L t)"
    and raw: "truthy inp \<longrightarrow> \<not> prefix ''++'' (the inp)"
  shows "\<not> (truthy (parseInput_buffer L inp ctry dflt intl lim)
            \<and> firstIsPlus (the (parseInput_buffer L inp ctry dflt intl lim)))"
proof (cases "truthy inp \<and> firstIsPlus (the inp)")
  case False
  then have "truthy inp \<longrightarrow> \<not> firstIsPlus (the inp)"
    by blast
  from parseInput_buffer_national_input [OF intl c this] show ?thesis .
next
  case True
  define i1 where "i1 = (if intl = Some False \<and> truthy ctry \<and> truthy inp \<and> firstIsPlus (the inp)
             then Some (convertInternationalInputToNational L (the inp) (the ctry))
             else inp)"
  define i2 where "i2 = (if truthy i1 \<and> truthy ctry \<and> lim
             then Some (trimNumber L (the i1) (the ctry))
             else i1)"
  have eq: "parseInput_buffer L inp ctry dflt intl lim =
      (if truthy i2 \<and> \<not> firstIsPlus (the i2)
         \<and> (intl = Some True \<or> (\<not> truthy ctry \<and> \<not> truthy dflt))
       then Some (CHR ''+'' # the i2) else i2)"
    by (simp only: parseInput_buffer_def i1_def i2_def Let_def)
  from intl c have b: "parseInput_buffer L inp ctry dflt intl lim = i2"
    unfolding eq by simp
  from True raw have "\<not> prefix ''++'' (the inp)" "firstIsPlus (the inp)"
    by blast+
  from convert_national [OF H3 this, of "the ctry"] True intl c
  have n1: "\<not> firstIsPlus (the i1)"
    by (simp add: i1_def)
  from trimNumber_not_plus [OF n1, of L "the ctry"] n1 have "\<not> firstIsPlus (the i2)"
    by (simp add: i2_def)
  then show ?thesis
    unfolding b by blast
qed

lemma parseInput_buffer_unselected:
  assumes c: "\<not> truthy ctry" and raw: "truthy inp \<longrightarrow> \<not> prefix ''++'' (the inp)"
    and b: "truthy (parseInput_buffer L inp ctry dflt intl lim)"
  shows "\<not> prefix ''++'' (the (parseInput_buffer L inp ctry dflt intl lim))"
proof -
  from c
  have nc: "\<not> (intl = Some False \<and> truthy ctry \<and> truthy inp \<and> firstIsPlus (the inp))"
    by blast
  have i2: "(if truthy inp \<and> truthy ctry \<and> lim
             then Some (trimNumber L (the inp) (the ctry)) else inp) = inp"
    using c by simp
  have eq: "parseInput_buffer L inp ctry dflt intl lim =
      (if truthy inp \<and> \<not> firstIsPlus (the inp)
         \<and> (intl = Some True \<or> (\<not> truthy ctry \<and> \<not> truthy dflt))
       then Some (CHR ''+'' # the inp) else inp)"
    unfolding parseInput_buffer_noconv [OF nc] i2 ..
  show ?thesis
  proof (cases "truthy inp \<and> \<not> firstIsPlus (the inp)
         \<and> (intl = Some True \<or> (\<not> truthy ctry \<and> \<not> truthy dflt))")
    case True
    then obtain s where "inp = Some s" "\<not> firstIsPlus s"
      by (cases inp) auto
    with True show ?thesis
      unfolding eq by (cases s) auto
  next
    case False
    with b have "truthy inp" "parseInput_buffer L inp ctry dflt intl lim = inp"
      unfolding eq by auto
    with raw show ?thesis
      by simp
  qed
qed

lemma parseInput_output_national:
  assumes r: "parseInput L inp prev ctry dflt cs incl intl lim = (inp', ctry', val')"
    and intl: "intl = Some False"
    and H3: "\<And>t. \<not> firstIsPlus (parseDigits L t)"
    and raw: "truthy inp \<longrightarrow> \<not> prefix ''++'' (the inp)"
  shows "intl = Some False \<and> truthy ctry' \<and> truthy inp' \<longrightarrow> \<not> firstIsPlus (the inp')"
  using r
proof (cases rule: parseInput_cases)
  case (novalue c2)
  show ?thesis
  proof (intro impI notI)
    assume a: "intl = Some False \<and> truthy ctry' \<and> truthy inp'" and p: "firstIsPlus (the inp')"
    from a novalue(2,7) have "c2 = ctry" "truthy ctry"
      by auto
    from parseInput_buffer_selected_national [OF intl this(2) H3 raw, of dflt lim]
      novalue(1) a p
    show False
      by simp
  qed
next
  case (valued v)
  then show ?thesis
    by blast
next
  case (converted v)
  let ?b = "parseInput_buffer L inp ctry dflt intl lim"
  from converted(1,2) have "truthy (e164 L ?b ctry)"
    by simp
  then have tb: "truthy ?b"
    by (rule e164_truthy_input)
  have "\<not> truthy ctry"
  proof
    assume "truthy ctry"
    from parseInput_buffer_selected_national [OF intl this H3 raw, of dflt lim]
      tb converted(6)
    show False
      by blast
  qed
  from parseInput_buffer_unselected [OF this raw tb]
  have "\<not> prefix ''++'' (the ?b)" .
  from convert_national [OF H3 this converted(6), of "the ctry'"]
  have "\<not> firstIsPlus (the inp')"
    unfolding converted(7) by simp
  then show ?thesis
    by blast
qed

section \<open>The change handler\<close>

text \<open>
  With a country selected and \<open>international\<close> not set, the handler never fails; it removes
  one leading \<open>+\<close> from the new input, stores the rest as the buffer and computes the value
  from what it stored. What it stores begins with \<open>+\<close> exactly when the new input began
  with \<open>++\<close>.
\<close>

lemma onSetPhoneDigits_national:
  assumes "truthy (country p)" and "\<not> international p"
  shows "\<exists>st'. onSetPhoneDigits L p st raw = Inr st' \<and>
           phoneDigits st' =
             (case raw of None \<Rightarrow> None
              | Some s \<Rightarrow> Some (if firstIsPlus s then drop 1 s else s)) \<and>
           valueForParsedInput st' =
             (if truthy (phoneDigits st')
              then map_option number (asYouType L (country p) (the (phoneDigits st')))
              else None) \<and>
           ((\<exists>b. phoneDigits st' = Some b \<and> firstIsPlus b) \<longleftrightarrow>
            (\<exists>s. raw = Some s \<and> prefix ''++'' s))"
proof (cases raw)
  case None
  with assms show ?thesis
    by (simp add: onSetPhoneDigits_def js_or_def)
next
  case (Some s)
  show ?thesis
  proof (cases "firstIsPlus s")
    case True
    then obtain t where s: "s = CHR ''+'' # t" by (cases s) auto
    with assms Some show ?thesis
      by (cases t) (auto simp: onSetPhoneDigits_def js_or_def)
  next
    case False
    with assms Some show ?thesis
      by (cases s) (auto simp: onSetPhoneDigits_def js_or_def)
  qed
qed

lemma plus_not_digit: "CHR ''+'' \<notin> set ''0123456789''"
  by simp

lemma digits_no_plus:
  assumes "list_all (\<lambda>d. d \<in> set ''0123456789'') t"
  shows "CHR ''+'' \<notin> set t"
proof
  assume "CHR ''+'' \<in> set t"
  with assms have "CHR ''+'' \<in> set ''0123456789''"
    unfolding list_all_iff by blast
  with plus_not_digit show False by blast
qed

lemma isDigitBuffer_strip:
  assumes "isDigitBuffer s"
  shows "CHR ''+'' \<notin> set (if firstIsPlus s then drop 1 s else s)"
proof (cases s)
  case Nil
  then show ?thesis by simp
next
  case (Cons c t)
  from assms have t: "list_all (\<lambda>d. d \<in> set ''0123456789'') t"
    and c: "c = CHR ''+'' \<or> c \<in> set ''0123456789''"
    unfolding isDigitBuffer_def Cons list.case by blast+
  note n = digits_no_plus [OF t]
  show ?thesis
  proof (cases "c = CHR ''+''")
    case True
    with Cons n show ?thesis by simp
  next
    case False
    with c plus_not_digit have "c \<noteq> CHR ''+''" by blast
    with Cons n show ?thesis by simp
  qed
qed

text \<open>
  Claim C3 (invariant I2). With a country selected and \<open>international\<close> not set, for every
  new input that is a digit buffer (or \<open>undefined\<close>) the handler never fails, it removes the
  leading \<open>+\<close> of the new input before it stores the buffer and computes the value, the
  value is computed from the stored buffer, and the stored buffer contains no \<open>+\<close>.
\<close>

theorem onSetPhoneDigits_strips_plus:
  assumes "truthy (country p)" and "\<not> international p"
    and "case raw of None \<Rightarrow> True | Some s \<Rightarrow> isDigitBuffer s"
  shows "\<exists>st'. onSetPhoneDigits L p st raw = Inr st' \<and>
           phoneDigits st' =
             (case raw of None \<Rightarrow> None
              | Some s \<Rightarrow> Some (if firstIsPlus s then drop 1 s else s)) \<and>
           valueForParsedInput st' =
             (if truthy (phoneDigits st')
              then map_option number (asYouType L (country p) (the (phoneDigits st')))
              else None) \<and>
           (\<forall>b. phoneDigits st' = Some b \<longrightarrow> CHR ''+'' \<notin> set b)"
proof -
  from onSetPhoneDigits_national [OF assms(1,2), of L st raw]
  obtain st' where r: "onSetPhoneDigits L p st raw = Inr st'"
    and b: "phoneDigits st' =
             (case raw of None \<Rightarrow> None
              | Some s \<Rightarrow> Some (if firstIsPlus s then drop 1 s else s))"
    and v: "valueForParsedInput st' =
             (if truthy (phoneDigits st')
              then map_option number (asYouType L (country p) (the (phoneDigits st')))
              else None)"
    by blast
  have "\<forall>b. phoneDigits st' = Some b \<longrightarrow> CHR ''+'' \<notin> set b"
  proof (cases raw)
    case None
    with b show ?thesis by simp
  next
    case (Some s)
    with assms(3) have "isDigitBuffer s" by simp
    from isDigitBuffer_strip [OF this] b Some show ?thesis by simp
  qed
  with r b v show ?thesis by blast
qed

theorem onSetPhoneDigits_strips_plus_witness:
  "truthy (country us_national) \<and> \<not> international us_national \<and> isDigitBuffer ''+123'' \<and>
   map_sum id phoneDigits (onSetPhoneDigits sample_lib us_national (state0 False) (Some ''+123''))
     = Inr (Some ''123'')"
proof -
  have d: "isDigitBuffer ''+123''" by code_simp
  have c: "truthy (country us_national)" "\<not> international us_national"
    by (simp_all add: us_national_def)
  have h: "case Some ''+123'' of None \<Rightarrow> True | Some s \<Rightarrow> isDigitBuffer s"
    using d by simp
  from onSetPhoneDigits_strips_plus [OF c h, of sample_lib "state0 False"]
  obtain st' where r: "onSetPhoneDigits sample_lib us_national (state0 False) (Some ''+123'') = Inr st'"
    and b: "phoneDigits st' =
             (case Some ''+123'' of None \<Rightarrow> None
              | Some s \<Rightarrow> Some (if firstIsPlus s then drop 1 s else s))"
    by blast
  from b have "phoneDigits st' = Some ''123''" by simp
  with r c d show ?thesis by simp
qed

text \<open>
  Claim C4 (invariant I3). With neither a country nor a default country the handler never
  fails, it prepends \<open>+\<close> to a non-empty new input that lacks one, and every non-empty
  buffer it stores begins with \<open>+\<close>.
\<close>

theorem onSetPhoneDigits_forces_plus:
  assumes "\<not> truthy (country p)" and "\<not> truthy (defaultCountry p)"
  shows "\<exists>st'. onSetPhoneDigits L p st raw = Inr st' \<and>
           phoneDigits st' =
             (case raw of None \<Rightarrow> None
              | Some s \<Rightarrow> Some (if s \<noteq> [] \<and> \<not> firstIsPlus s then CHR ''+'' # s else s)) \<and>
           (\<forall>b. phoneDigits st' = Some b \<longrightarrow> b \<noteq> [] \<longrightarrow> firstIsPlus b)"
proof (cases raw)
  case None
  with assms show ?thesis
    by (simp add: onSetPhoneDigits_def js_or_def)
next
  case (Some s)
  with assms show ?thesis
    by (cases s) (auto simp: onSetPhoneDigits_def js_or_def)
qed

theorem onSetPhoneDigits_forces_plus_witness:
  "\<not> truthy (country no_country) \<and> \<not> truthy (defaultCountry no_country) \<and>
   map_sum id phoneDigits (onSetPhoneDigits sample_lib no_country (state0 False) (Some ''1213''))
     = Inr (Some ''+1213'')"
  using onSetPhoneDigits_forces_plus [of no_country sample_lib "state0 False" "Some ''1213''"]
  by (auto simp: no_country_def)

text \<open>
  With \<open>country\<close>, \<open>international\<close> and \<open>withCountryCallingCode\<close> set, a new input
  that starts with the calling-code prefix is stored, and the value is computed from it.
\<close>

lemma onSetPhoneDigits_prefixed:
  assumes "truthy (country p)" and "international p" and "withCountryCallingCode p"
    and "getCountryCallingCode L (the (country p)) = Some cc"
    and "prefix (CHR ''+'' # cc) s"
  shows "onSetPhoneDigits L p st (Some s) =
           Inr (st\<lparr>phoneDigits := Some s,
                   valueForParsedInput := map_option number (asYouType L (country p) s)\<rparr>)"
proof -
  from assms(5) have "s \<noteq> []" by auto
  with assms show ?thesis
    by (simp add: onSetPhoneDigits_def js_or_def indexOf_zero_iff)
qed

text \<open>
  At initialisation with \<open>country\<close>, \<open>international\<close> and \<open>withCountryCallingCode\<close>
  set, the mismatch ref is set exactly when the value does not start with the calling-code
  prefix; the buffer is the value.
\<close>

lemma initialState_mismatch:
  assumes "truthy (country p)" and "international p" and "withCountryCallingCode p"
    and "truthy (value p)" and "getCountryCallingCode L (the (country p)) = Some cc"
  shows "initialState L p =
           Inr \<lparr>phoneDigits = Some (the (value p)), valueForParsedInput = value p,
                rerenderTrigger = 0,
                countryMismatchDetected = (\<not> prefix (CHR ''+'' # cc) (the (value p)))\<rparr>"
  using assms
  by (simp add: initialState_def getParsedInputForValue_def indexOf_zero_iff)

text \<open>
  Claim C10. With \<open>country\<close>, \<open>international\<close> and \<open>withCountryCallingCode\<close> set, a
  new input that does not start with \<open>+\<close> and the calling code of the country is undone:
  only the re-render trigger changes, the stored buffer and the value stay as they were.
  When a mismatch of country and value has been detected, the input is stored and the value
  computed from it, as for an input that starts with the prefix.
\<close>

theorem onSetPhoneDigits_undo_unless_mismatch:
  assumes "truthy (country p)" and "international p" and "withCountryCallingCode p"
    and "getCountryCallingCode L (the (country p)) = Some cc"
    and "\<not> prefix (CHR ''+'' # cc) s"
  shows "onSetPhoneDigits L p st (Some s) =
           Inr (if countryMismatchDetected st
                then st\<lparr>phoneDigits := Some s,
                        valueForParsedInput :=
                          (if s = [] then None
                           else map_option number (asYouType L (country p) s))\<rparr>
                else st\<lparr>rerenderTrigger := Suc (rerenderTrigger st)\<rparr>)"
  using assms by (simp add: onSetPhoneDigits_def js_or_def indexOf_zero_iff)

theorem onSetPhoneDigits_undo_unless_mismatch_witness:
  "truthy (country us_with_calling_code) \<and> international us_with_calling_code \<and>
   withCountryCallingCode us_with_calling_code \<and>
   getCountryCallingCode sample_lib (the (country us_with_calling_code)) = Some ''1'' \<and>
   \<not> prefix ''+1'' ''+'' \<and>
   onSetPhoneDigits sample_lib us_with_calling_code (state0 False) (Some ''+'')
     = Inr ((state0 False)\<lparr>rerenderTrigger := 1\<rparr>) \<and>
   \<not> prefix ''+1'' ''+78'' \<and>
   onSetPhoneDigits sample_lib us_with_calling_code (state0 True) (Some ''+78'')
     = Inr ((state0 True)\<lparr>phoneDigits := Some ''+78'', valueForParsedInput := Some ''+78''\<rparr>)"
proof -
  have h: "truthy (country us_with_calling_code)" "international us_with_calling_code"
    "withCountryCallingCode us_with_calling_code"
    "getCountryCallingCode sample_lib (the (country us_with_calling_code)) = Some ''1''"
    by (simp_all add: us_with_calling_code_def sample_callingCode_US)
  have n1: "\<not> prefix ''+1'' ''+''" and n2: "\<not> prefix ''+1'' ''+78''"
    by simp_all
  have c: "country us_with_calling_code = Some ''US''"
    by (simp add: us_with_calling_code_def)
  note undone = onSetPhoneDigits_undo_unless_mismatch [OF h n1, of "state0 False"]
    and accepted = onSetPhoneDigits_undo_unless_mismatch [OF h n2, of "state0 True"]
  from undone accepted h n1 n2 show ?thesis
    by (simp add: c sample_asYouType_78 state0_def)
qed

section \<open>The initial buffer\<close>

text \<open>
  Claim C9. For a country the library knows and a non-empty value: with \<open>international\<close>
  and \<open>withCountryCallingCode\<close> set, the buffer is the value itself, and a mismatch is
  reported exactly when the value does not start with the calling-code prefix; otherwise,
  when the formatter yields a number, the buffer is the national number (or the digits of the
  national format), whatever country and calling code the number has, and a mismatch is
  reported when the number has another country, or no other country and another calling code.
\<close>

theorem getParsedInputForValue_mismatch_keeps_buffer:
  assumes "truthy (country p)" and "truthy (value p)"
    and "getCountryCallingCode L (the (country p)) = Some cc"
  shows "(international p \<and> withCountryCallingCode p \<longrightarrow>
            getParsedInputForValue L p =
              Inr (the (value p),
                   if prefix (CHR ''+'' # cc) (the (value p)) then []
                   else [(the (value p), the (country p), None)])) \<and>
         (\<not> (international p \<and> withCountryCallingCode p) \<longrightarrow>
            asYouType L None (the (value p)) = Some n \<longrightarrow>
            getParsedInputForValue L p =
              Inr (if international p then nationalNumber n
                   else parseDigits L (formatNational n),
                   if truthy (pn_country n) \<and> pn_country n \<noteq> country p
                   then [(the (value p), the (country p), pn_country n)]
                   else if countryCallingCode n \<noteq> cc
                   then [(the (value p), the (country p), None)]
                   else []))"
  using assms by (auto simp: getParsedInputForValue_def indexOf_zero_iff)

theorem getParsedInputForValue_mismatch_keeps_buffer_witness:
  "truthy (country us_with_calling_code) \<and> truthy (value us_with_calling_code) \<and>
   getCountryCallingCode sample_lib (the (country us_with_calling_code)) = Some ''1'' \<and>
   international us_with_calling_code \<and> withCountryCallingCode us_with_calling_code \<and>
   getParsedInputForValue sample_lib us_with_calling_code
     = Inr (''+78005553535'', [(''+78005553535'', ''US'', None)]) \<and>
   \<not> (international (us_national\<lparr>value := Some ''+78005553535''\<rparr>) \<and>
       withCountryCallingCode (us_national\<lparr>value := Some ''+78005553535''\<rparr>)) \<and>
   asYouType sample_lib None ''+78005553535'' =
     Some \<lparr>number = ''+78005553535'', pn_country = Some ''RU'', countryCallingCode = ''7'',
         nationalNumber = ''8005553535'', formatNational = ''8 8005553535''\<rparr> \<and>
   getParsedInputForValue sample_lib (us_national\<lparr>value := Some ''+78005553535''\<rparr>)
     = Inr (''88005553535'', [(''+78005553535'', ''US'', Some ''RU'')])"
proof -
  have h: "truthy (country us_with_calling_code)" "truthy (value us_with_calling_code)"
    "getCountryCallingCode sample_lib (the (country us_with_calling_code)) = Some ''1''"
    by (simp_all add: us_with_calling_code_def sample_callingCode_US)
  have k: "truthy (country (us_national\<lparr>value := Some ''+78005553535''\<rparr>))"
    "truthy (value (us_national\<lparr>value := Some ''+78005553535''\<rparr>))"
    "getCountryCallingCode sample_lib (the (country (us_national\<lparr>value := Some ''+78005553535''\<rparr>)))
       = Some ''1''"
    by (simp_all add: us_national_def sample_callingCode_US)
  from getParsedInputForValue_mismatch_keeps_buffer [OF h] getParsedInputForValue_mismatch_keeps_buffer [OF k, where n = "the (asYouType sample_lib None ''+78005553535'')"] h
  show ?thesis
    by (simp add: us_with_calling_code_def us_national_def sample_asYouType_78005553535
        sample_parseDigits_RU)
qed

section \<open>Stripping the calling code\<close>

text \<open>
  Claim C8, as the model has it. \<open>stripCountryCallingCode\<close> is a total function: it has a
  result for every buffer and country. The result is empty for the buffer that is exactly
  \<open>+\<close> and the calling code of the country, and for every buffer whose digits start with
  no known calling code and not with the calling code of the country. Where the digits do
  not start with the calling code of the country and start with a known calling code, the
  result is what follows the longest such code.
\<close>

theorem stripCountryCallingCode_empty:
  "(ctry = Some c \<and> getCountryCallingCode L c = Some cc \<and> num = CHR ''+'' # cc
      \<longrightarrow> stripCountryCallingCode L num ctry = []) \<and>
   ((\<forall>k \<in> set (country_calling_codes L). \<not> prefix k (drop 1 num)) \<and>
    (\<forall>c' cc'. ctry = Some c' \<and> getCountryCallingCode L c' = Some cc'
        \<longrightarrow> \<not> prefix cc' (drop 1 num))
      \<longrightarrow> stripCountryCallingCode L num ctry = []) \<and>
   (longestCallingCode (country_calling_codes L) (drop 1 num) = Some k \<and>
    (\<forall>c' cc'. ctry = Some c' \<and> getCountryCallingCode L c' = Some cc'
        \<longrightarrow> \<not> prefix cc' (drop 1 num))
      \<longrightarrow> stripCountryCallingCode L num ctry = drop (length k) (drop 1 num))"
  by (auto simp: stripCountryCallingCode_def Let_def
      split: option.splits dest: longestCallingCode_Some)

theorem stripCountryCallingCode_empty_witness:
  "getCountryCallingCode sample_lib ''FR'' = Some ''33'' \<and>
   stripCountryCallingCode sample_lib ''+33'' (Some ''FR'') = [] \<and>
   stripCountryCallingCode sample_lib ''+3'' (Some ''FR'') = [] \<and>
   stripCountryCallingCode sample_lib ''+999'' None = [] \<and>
   longestCallingCode (country_calling_codes sample_lib) (drop 1 ''+7800'') = Some ''7'' \<and>
   stripCountryCallingCode sample_lib ''+7800'' (Some ''FR'') = ''800''"
proof -
  have cc: "getCountryCallingCode sample_lib ''FR'' = Some ''33''"
    and k: "longestCallingCode (country_calling_codes sample_lib) (drop 1 ''+7800'') = Some ''7''"
    by code_simp+
  have none: "\<forall>k \<in> set (country_calling_codes sample_lib). \<not> prefix k (drop 1 ''+999'')"
    "\<forall>k \<in> set (country_calling_codes sample_lib). \<not> prefix k (drop 1 ''+3'')"
    by (simp_all add: sample_lib_def sample_codes_def)
  from stripCountryCallingCode_empty [of "Some ''FR''" "''FR''" sample_lib "''33''" "''+33''"] cc
  have "stripCountryCallingCode sample_lib ''+33'' (Some ''FR'') = []"
    by simp
  moreover from stripCountryCallingCode_empty [of "Some ''FR''" "''FR''" sample_lib "''33''" "''+3''"] cc none
  have "stripCountryCallingCode sample_lib ''+3'' (Some ''FR'') = []"
    by simp
  moreover from stripCountryCallingCode_empty [of None "''FR''" sample_lib "''33''" "''+999''"] none
  have "stripCountryCallingCode sample_lib ''+999'' None = []"
    by simp
  moreover from stripCountryCallingCode_empty [of "Some ''FR''" "''FR''" sample_lib "''33''" "''+7800''" "''7''"] cc k
  have "stripCountryCallingCode sample_lib ''+7800'' (Some ''FR'') = ''800''"
    by simp
  ultimately show ?thesis
    using cc k by simp
qed

text \<open>
  Claim C8 as it is stated fails for a buffer that is no longer than the prefix of the
  country and starts with another calling code: \<open>+12\<close> is as long as \<open>+33\<close>, and under
  \<open>FR\<close> it loses the calling code 1 and keeps the digit 2.
\<close>

theorem stripCountryCallingCode_short_counterexample:
  "getCountryCallingCode sample_lib ''FR'' = Some ''33'' \<and>
   length ''+12'' \<le> length (CHR ''+'' # ''33'') \<and>
   stripCountryCallingCode sample_lib ''+12'' (Some ''FR'') = ''2''"
  by code_simp

section \<open>Changing the country\<close>

text \<open>
  Claim C6, as the model has it. For an international buffer that does not start with
  \<open>+\<close> and the calling code of the new country (a shorter buffer never does), the result is
  that prefix when the international format is kept, and the empty string when the national
  format is asked for.
\<close>

theorem migrateParsedInputForNewCountry_mismatch:
  assumes "truthy digits" and "firstIsPlus (the digits)" and "truthy newCountry"
    and "getCountryCallingCode L (the newCountry) = Some cc"
    and "\<not> prefix (CHR ''+'' # cc) (the digits)"
  shows "migrateParsedInputForNewCountry L digits prevCountry newCountry useNationalFormat =
           (if useNationalFormat then '''' else CHR ''+'' # cc)"
  using assms by (simp add: migrateParsedInputForNewCountry_def)

theorem migrateParsedInputForNewCountry_mismatch_witness:
  "truthy (Some ''+78005553535'') \<and> firstIsPlus (the (Some ''+78005553535'')) \<and>
   truthy (Some ''US'') \<and> getCountryCallingCode sample_lib (the (Some ''US'')) = Some ''1'' \<and>
   \<not> prefix ''+1'' (the (Some ''+78005553535'')) \<and>
   migrateParsedInputForNewCountry sample_lib (Some ''+78005553535'') None (Some ''US'') False
     = ''+1'' \<and>
   truthy (Some ''+99'') \<and> firstIsPlus (the (Some ''+99'')) \<and>
   \<not> prefix ''+1'' (the (Some ''+99'')) \<and>
   migrateParsedInputForNewCountry sample_lib (Some ''+99'') (Some ''KG'') (Some ''US'') False
     = ''+1''"
proof -
  have cc: "getCountryCallingCode sample_lib (the (Some ''US'')) = Some ''1''"
    by code_simp
  have a: "truthy (Some ''+78005553535'')" "firstIsPlus (the (Some ''+78005553535''))"
    "\<not> prefix ''+1'' (the (Some ''+78005553535''))"
    and b: "truthy (Some ''+99'')" "firstIsPlus (the (Some ''+99''))"
    "\<not> prefix ''+1'' (the (Some ''+99''))"
    and us: "truthy (Some ''US'')"
    by simp_all
  note first = migrateParsedInputForNewCountry_mismatch [OF a(1,2) us cc a(3), of None False]
    and second = migrateParsedInputForNewCountry_mismatch [OF b(1,2) us cc b(3), of "Some ''KG''" False]
  from first second cc a b us show ?thesis
    by simp
qed

text \<open>
  Claim C6 as it is stated fails with \<open>useNationalFormat\<close>: the buffer is cleared, not reset
  to \<open>+1\<close>.
\<close>

theorem migrateParsedInputForNewCountry_national_counterexample:
  "firstIsPlus ''+78005553535'' \<and>
   getCountryCallingCode sample_lib ''US'' = Some ''1'' \<and>
   \<not> prefix ''+1'' ''+78005553535'' \<and>
   migrateParsedInputForNewCountry sample_lib (Some ''+78005553535'') None (Some ''US'') True
     = ''''"
  by code_simp

section \<open>The country of a partial number\<close>

text \<open>
  Claim C5, as the model has it. An inferred country that is allowed is returned. When no
  allowed country is inferred, a selected country that can no longer belong to the number is
  dropped if the international option is allowed (\<open>required\<close> not set); in every other
  case, also when the international option is not allowed, the selected country is returned
  as it is.
\<close>

theorem getCountryForPartialE164Number_cases:
  "(asYouTypeCountry L partialE164Number = Some d \<and> d \<noteq> [] \<and>
      (case countries of None \<Rightarrow> True | Some cs \<Rightarrow> d \<in> set cs)
      \<longrightarrow> getCountryForPartialE164Number L partialE164Number ctry countries required = Some d) \<and>
   (\<not> (truthy (asYouTypeCountry L partialE164Number) \<and>
        (case countries of None \<Rightarrow> True
         | Some cs \<Rightarrow> the (asYouTypeCountry L partialE164Number) \<in> set cs))
      \<longrightarrow> getCountryForPartialE164Number L partialE164Number ctry countries required =
           (if truthy ctry \<and> \<not> required
               \<and> \<not> couldNumberBelongToCountry L partialE164Number (the ctry)
            then None else ctry))"
  by (cases countries) (auto simp: getCountryForPartialE164Number_def Let_def
      getCountryFromPossiblyIncompleteInternationalPhoneNumber_def)

theorem getCountryForPartialE164Number_cases_witness:
  "asYouTypeCountry sample_lib ''+78005553535'' = Some ''RU'' \<and>
   getCountryForPartialE164Number sample_lib ''+78005553535'' None (Some [''US'', ''RU'']) False
     = Some ''RU'' \<and>
   \<not> truthy (asYouTypeCountry sample_lib ''+7'') \<and>
   getCountryForPartialE164Number sample_lib ''+7'' (Some ''FR'') (Some [''FR'', ''RU'']) False
     = None \<and>
   getCountryForPartialE164Number sample_lib ''+7'' (Some ''FR'') (Some [''FR'', ''RU'']) True
     = Some ''FR''"
proof -
  have d: "asYouTypeCountry sample_lib ''+78005553535'' = Some ''RU''"
    and n: "\<not> truthy (asYouTypeCountry sample_lib ''+7'')"
    and c: "\<not> couldNumberBelongToCountry sample_lib ''+7'' ''FR''"
    by code_simp+
  note inferred =
    getCountryForPartialE164Number_cases [of sample_lib "''+78005553535''" "''RU''" "Some [''US'', ''RU'']" None False]
  note dropped =
    getCountryForPartialE164Number_cases [of sample_lib "''+7''" "''RU''" "Some [''FR'', ''RU'']" "Some ''FR''" False]
  note kept =
    getCountryForPartialE164Number_cases [of sample_lib "''+7''" "''RU''" "Some [''FR'', ''RU'']" "Some ''FR''" True]
  from inferred d
  have 1: "getCountryForPartialE164Number sample_lib ''+78005553535'' None
             (Some [''US'', ''RU'']) False = Some ''RU''"
    by simp
  from dropped n c
  have 2: "getCountryForPartialE164Number sample_lib ''+7'' (Some ''FR'')
             (Some [''FR'', ''RU'']) False = None"
    by simp
  from kept n
  have 3: "getCountryForPartialE164Number sample_lib ''+7'' (Some ''FR'')
             (Some [''FR'', ''RU'']) True = Some ''FR''"
    by simp
  from 1 2 3 d n show ?thesis by simp
qed

text \<open>
  Claim C5 as it is stated fails at the input of the tests: for \<open>+7\<close> with \<open>FR\<close>
  selected, \<open>FR\<close> and \<open>RU\<close> allowed and no international option, the first allowed
  country the number could belong to is \<open>RU\<close>, and the result is \<open>FR\<close>.
\<close>

theorem getCountryForPartialE164Number_keeps_country_counterexample:
  "\<not> couldNumberBelongToCountry sample_lib ''+7'' ''FR'' \<and>
   find (couldNumberBelongToCountry sample_lib ''+7'') [''FR'', ''RU''] = Some ''RU'' \<and>
   asYouTypeCountry sample_lib ''+7'' = None \<and>
   getCountryForPartialE164Number sample_lib ''+7'' (Some ''FR'') (Some [''FR'', ''RU'']) True
     = Some ''FR''"
  by code_simp

section \<open>Parsing the input\<close>

text \<open>
  Claim C1. For a library that infers \<open>RU\<close> from \<open>+78005553535\<close>, \<open>parseInput\<close> of
  that input with \<open>US\<close> selected, no default country and no restriction of the countries
  returns the input, the country \<open>RU\<close> and the input as the value.
\<close>

theorem parseInput_inferred_country_overrides:
  assumes "asYouTypeCountry L ''+78005553535'' = Some ''RU''"
  shows "parseInput L (Some ''+78005553535'') prevInput (Some ''US'') None None
           includeInternationalOption None False
         = (Some ''+78005553535'', Some ''RU'', Some ''+78005553535'')"
  using assms
  by (simp add: parseInput_def parseInput_buffer_def e164_def getCountryForPartialE164Number_def
      getCountryFromPossiblyIncompleteInternationalPhoneNumber_def Let_def)

theorem parseInput_inferred_country_overrides_witness:
  "asYouTypeCountry sample_lib ''+78005553535'' = Some ''RU'' \<and>
   parseInput sample_lib (Some ''+78005553535'') None (Some ''US'') None None True None False
     = (Some ''+78005553535'', Some ''RU'', Some ''+78005553535'')"
proof -
  have d: "asYouTypeCountry sample_lib ''+78005553535'' = Some ''RU''"
    by code_simp
  from parseInput_inferred_country_overrides [OF d, of None True] d show ?thesis by simp
qed




text \<open>
  Erasing an international buffer drops the inferred country. Fed back with the country it
  returned, the result is the same; fed back with the country of the first call, it is not.
\<close>

lemma parseInput_refeed_erased_example:
  "parseInput sample_lib (Some []) (Some ''+78005553535'') (Some ''RU'') None None True None False
     = (Some [], None, None) \<and>
   parseInput sample_lib (Some []) (Some []) None None None True None False
     = (Some [], None, None) \<and>
   parseInput sample_lib (Some []) (Some []) (Some ''RU'') None None True None False
     = (Some [], Some ''RU'', None)"
  by code_simp

text \<open>
  Where the country is inferred by the call, the returned buffer was not trimmed under it:
  \<open>trimNumber\<close> under \<open>FR\<close> cuts the buffer returned for \<open>+331234567890\<close>.
\<close>

lemma trimNumber_returned_buffer_example:
  "trimNumber sample_lib ''+331234567890'' ''FR'' = ''+33123456789''"
  by code_simp

text \<open>
  The proviso for \<open>international\<close> \<open>false\<close> cannot be dropped. A new input with three
  leading \<open>+\<close> (no digit buffer) comes back as the international \<open>+78005553535\<close> with
  \<open>RU\<close>; it is not cut by \<open>trimNumber\<close>, the value is its \<open>e164\<close> and the country is
  the one found for the value, and fed back it is converted to the national format.
\<close>

lemma parseInput_refeed_proviso_example:
  "parseInput sample_lib (Some ''+++78005553535'') None (Some ''RU'') None None False
     (Some False) True
     = (Some ''+78005553535'', Some ''RU'', Some ''+78005553535'') \<and>
   trimNumber sample_lib ''+78005553535'' ''RU'' = ''+78005553535'' \<and>
   e164 sample_lib (Some ''+78005553535'') (Some ''RU'') = Some ''+78005553535'' \<and>
   getCountryForPartialE164Number sample_lib ''+78005553535'' (Some ''RU'') None True
     = Some ''RU'' \<and>
   parseInput sample_lib (Some ''+78005553535'') (Some ''+78005553535'') (Some ''RU'') None None
     False (Some False) True
     = (Some ''88005553535'', Some ''RU'', Some ''+78005553535'')"
  by code_simp


section \<open>The assertions of the tests\<close>

text \<open>
  On the small numbering plan the functions above give what \<open>phoneInputHelpers.test.js\<close>
  asserts. The assertions on the national format of numbers of one or two digits
  (\<open>+78\<close> and \<open>+788\<close> with \<open>international\<close> \<open>false\<close>) depend on the formatter of
  the library and are not among them.
\<close>

lemma test_stripCountryCallingCode:
  "stripCountryCallingCode sample_lib ''+7800'' (Some ''RU'') = ''800''"
  "stripCountryCallingCode sample_lib ''+3'' (Some ''FR'') = ''''"
  "stripCountryCallingCode sample_lib ''+7'' (Some ''FR'') = ''''"
  "stripCountryCallingCode sample_lib ''+7800'' (Some ''FR'') = ''800''"
  "stripCountryCallingCode sample_lib ''+999'' None = ''''"
  by code_simp+

lemma test_couldNumberBelongToCountry:
  "couldNumberBelongToCountry sample_lib ''+7800'' ''RU''"
  "\<not> couldNumberBelongToCountry sample_lib ''+7800'' ''FR''"
  "\<not> couldNumberBelongToCountry sample_lib ''+33'' ''AM''"
  "couldNumberBelongToCountry sample_lib ''+99'' ''KG''"
  by code_simp+

lemma test_getNationalSignificantNumberDigits:
  "getNationalSignificantNumberDigits sample_lib ''+7800555'' None = Some ''800555''"
  "getNationalSignificantNumberDigits sample_lib ''+'' None = None"
  "getNationalSignificantNumberDigits sample_lib ''+7'' None = None"
  "getNationalSignificantNumberDigits sample_lib ''8800555'' (Some ''RU'') = Some ''800555''"
  "getNationalSignificantNumberDigits sample_lib ''8'' (Some ''RU'') = None"
  "getNationalSignificantNumberDigits sample_lib '''' (Some ''RU'') = None"
  by code_simp+

lemma test_trimNumber:
  "trimNumber sample_lib '''' ''RU'' = ''''"
  "trimNumber sample_lib ''88005553535'' ''RU'' = ''88005553535''"
  "trimNumber sample_lib ''880055535351'' ''RU'' = ''88005553535''"
  "trimNumber sample_lib ''+78005553535'' ''RU'' = ''+78005553535''"
  "trimNumber sample_lib ''+780055535351'' ''RU'' = ''+78005553535''"
  by code_simp+

lemma test_e164:
  "e164 sample_lib None None = None"
  "e164 sample_lib (Some ''+'') None = None"
  "e164 sample_lib (Some ''+7800'') None = Some ''+7800''"
  "e164 sample_lib (Some ''8800'') None = None"
  "e164 sample_lib (Some ''8'') (Some ''RU'') = None"
  "e164 sample_lib (Some ''8800'') (Some ''RU'') = Some ''+7800''"
  by code_simp+

lemma test_getCountryForPartialE164Number:
  "getCountryForPartialE164Number sample_lib ''+'' (Some ''RU'') (Some [''US'', ''RU'']) False
     = Some ''RU''"
  "getCountryForPartialE164Number sample_lib ''+'' None (Some [''US'', ''RU'']) False = None"
  "getCountryForPartialE164Number sample_lib ''+78005553535'' None (Some [''US'', ''RU'']) False
     = Some ''RU''"
  "getCountryForPartialE164Number sample_lib ''+7'' (Some ''FR'') (Some [''FR'', ''RU'']) False
     = None"
  "getCountryForPartialE164Number sample_lib ''+12'' (Some ''FR'') (Some [''FR'', ''US'']) False
     = None"
  "getCountryForPartialE164Number sample_lib ''+7'' (Some ''FR'') (Some [''FR'', ''RU'']) True
     = Some ''FR''"
  "getCountryForPartialE164Number sample_lib ''+12'' (Some ''FR'') (Some [''FR'', ''US'']) True
     = Some ''FR''"
  by code_simp+

lemma test_migrateParsedInputForNewCountry:
  "migrateParsedInputForNewCountry sample_lib (Some '''') (Some ''RU'') (Some ''US'') True = ''''"
  "migrateParsedInputForNewCountry sample_lib (Some ''+18005553535'') None (Some ''US'') False
     = ''+18005553535''"
  "migrateParsedInputForNewCountry sample_lib (Some ''8005553535'') (Some ''RU'') (Some ''US'') False
     = ''8005553535''"
  "migrateParsedInputForNewCountry sample_lib (Some ''+78005553535'') None (Some ''US'') False
     = ''+1''"
  "migrateParsedInputForNewCountry sample_lib (Some ''+12223333333'') None (Some ''US'') False
     = ''+12223333333''"
  "migrateParsedInputForNewCountry sample_lib (Some ''+78005553535'') (Some ''RU'') (Some ''US'') False
     = ''+1''"
  "migrateParsedInputForNewCountry sample_lib (Some ''+18005553535'') (Some ''CA'') (Some ''US'') False
     = ''+18005553535''"
  "migrateParsedInputForNewCountry sample_lib (Some ''+99'') (Some ''KG'') (Some ''US'') False
     = ''+1''"
  "migrateParsedInputForNewCountry sample_lib (Some ''8800555'') (Some ''RU'') None False
     = ''+7800555''"
  "migrateParsedInputForNewCountry sample_lib (Some ''8'') (Some ''RU'') None False = ''''"
  "migrateParsedInputForNewCountry sample_lib (Some ''+78005553535'') (Some ''RU'') None False
     = ''+78005553535''"
  "migrateParsedInputForNewCountry sample_lib (Some ''+78005553535'') None (Some ''RU'') True
     = ''8005553535''"
  "migrateParsedInputForNewCountry sample_lib (Some ''+12133734253'') None (Some ''CA'') True
     = ''2133734253''"
  "migrateParsedInputForNewCountry sample_lib (Some ''+78005553535'') None (Some ''US'') True
     = ''''"
  "migrateParsedInputForNewCountry sample_lib None None (Some ''US'') False = ''+1''"
  "migrateParsedInputForNewCountry sample_lib (Some ''+1222'') (Some ''CA'') (Some ''US'') False
     = ''+1222''"
  "migrateParsedInputForNewCountry sample_lib (Some ''+1222'') (Some ''CA'') (Some ''RU'') False
     = ''+7''"
  "migrateParsedInputForNewCountry sample_lib (Some ''+1222'') None (Some ''US'') False
     = ''+1222''"
  by code_simp+

lemma test_parseInput:
  "parseInput sample_lib None None (Some ''RU'') None None True None False
     = (None, Some ''RU'', None)"
  "parseInput sample_lib (Some '''') None None None None True None False = (Some '''', None, None)"
  "parseInput sample_lib (Some ''+'') None None None None True None False
     = (Some ''+'', None, None)"
  "parseInput sample_lib (Some ''1213'') None None None None True None False
     = (Some ''+1213'', None, Some ''+1213'')"
  "parseInput sample_lib (Some ''+1213'') None None None None True None False
     = (Some ''+1213'', None, Some ''+1213'')"
  "parseInput sample_lib (Some ''213'') None (Some ''US'') None None True None False
     = (Some ''213'', Some ''US'', Some ''+1213'')"
  "parseInput sample_lib (Some ''+78005553535'') None (Some ''US'') None None True None False
     = (Some ''+78005553535'', Some ''RU'', Some ''+78005553535'')"
  "parseInput sample_lib (Some ''+15555555555'') None (Some ''US'') None None True None False
     = (Some ''+15555555555'', Some ''US'', Some ''+15555555555'')"
  "parseInput sample_lib (Some '''') (Some ''+78005553535'') (Some ''RU'') None None True None False
     = (Some '''', None, None)"
  "parseInput sample_lib (Some '''') (Some ''+78005553535'') (Some ''RU'') (Some ''US'') None True
       None False
     = (Some '''', Some ''US'', None)"
  "parseInput sample_lib (Some ''+'') (Some ''+78005553535'') (Some ''RU'') None None True None False
     = (Some ''+'', None, None)"
  by code_simp+

lemma test_parseInput_limitMaxLength:
  "parseInput sample_lib (Some ''21337342530'') None (Some ''US'') None None True None True
     = (Some ''2133734253'', Some ''US'', Some ''+12133734253'')"
  "parseInput sample_lib (Some ''+121337342530'') None (Some ''US'') None None True None True
     = (Some ''+12133734253'', Some ''US'', Some ''+12133734253'')"
  "parseInput sample_lib (Some ''+121337342530'') None None None None True None True
     = (Some ''+121337342530'', None, Some ''+121337342530'')"
  by code_simp+

lemma test_parseInput_international:
  "parseInput sample_lib (Some '''') (Some ''+78005553535'') (Some ''RU'') (Some ''US'') None True
       (Some True) False
     = (Some '''', None, None)"
  "parseInput sample_lib (Some ''2'') (Some ''+78005553535'') (Some ''RU'') None None True
       (Some True) False
     = (Some ''+2'', None, Some ''+2'')"
  "parseInput sample_lib (Some ''+7'') (Some '''') (Some ''RU'') None None True (Some False) False
     = (Some '''', Some ''RU'', None)"
  "parseInput sample_lib (Some ''+78005553535'') (Some '''') (Some ''RU'') None None True
       (Some False) False
     = (Some ''88005553535'', Some ''RU'', Some ''+78005553535'')"
  "parseInput sample_lib (Some ''+78005553535'') (Some '''') (Some ''US'') None None True
       (Some False) False
     = (Some ''78005553535'', Some ''US'', Some ''+178005553535'')"
  "parseInput sample_lib (Some ''88005553535'') (Some '''') (Some ''RU'') None None True
       (Some False) False
     = (Some ''88005553535'', Some ''RU'', Some ''+78005553535'')"
  "parseInput sample_lib (Some '''') (Some ''88005553535'') (Some ''RU'') None None True
       (Some False) False
     = (Some '''', Some ''RU'', None)"
  "parseInput sample_lib (Some ''+'') (Some '''') None None None True (Some False) False
     = (Some ''+'', None, None)"
  "parseInput sample_lib (Some ''+7'') (Some '''') None None None True (Some False) False
     = (Some ''+7'', None, Some ''+7'')"
  "parseInput sample_lib (Some ''+78005553535'') (Some '''') None None None True
       (Some False) False
     = (Some ''88005553535'', Some ''RU'', Some ''+78005553535'')"
  by code_simp+

end
